theory Spec2Isabelle
  imports Main
begin

section \<open>JavaScript values\<close>

text \<open>
  The fields of a job snapshot come out of \<^verbatim>\<open>JSON.parse\<close> or \<^verbatim>\<open>res.json()\<close> and are
  used through truthiness tests (\<^verbatim>\<open>data.progress || 0\<close>, \<^verbatim>\<open>if (data.message)\<close>), strict
  equality (\<^verbatim>\<open>data.status === 'running'\<close>, \<^verbatim>\<open>indexOf\<close>) and template literals. The
  fields are scalars; numbers are integers here, as the percentage of the data model is,
  of a size that JavaScript holds exactly and prints in plain decimal; an absent field
  reads as \<^verbatim>\<open>undefined\<close>.
\<close>

datatype jsval = JUndefined | JNull | JBool bool | JNum int | JStr string

fun truthy :: "jsval \<Rightarrow> bool" where
  "truthy JUndefined = False"
| "truthy JNull = False"
| "truthy (JBool b) = b"
| "truthy (JNum n) = (n \<noteq> 0)"
| "truthy (JStr s) = (s \<noteq> [])"

definition js_or :: "jsval \<Rightarrow> jsval \<Rightarrow> jsval" where
  \<comment> \<open>\<^verbatim>\<open>a || b\<close>\<close>
  "js_or a b = (if truthy a then a else b)"

fun showNat :: "nat \<Rightarrow> string" where
  "showNat n =
     (if n < 10 then [''0123456789'' ! n]
      else showNat (n div 10) @ [''0123456789'' ! (n mod 10)])"

declare showNat.simps [simp del]

definition showInt :: "int \<Rightarrow> string" where
  "showInt i = (if i < 0 then ''-'' @ showNat (nat (- i)) else showNat (nat i))"

fun toString :: "jsval \<Rightarrow> string" where
  \<comment> \<open>the conversion a template literal \<^verbatim>\<open>`${v}`\<close> applies\<close>
  "toString JUndefined = ''undefined''"
| "toString JNull = ''null''"
| "toString (JBool b) = (if b then ''true'' else ''false'')"
| "toString (JNum n) = showInt n"
| "toString (JStr s) = s"

fun indexOf :: "string list \<Rightarrow> jsval \<Rightarrow> int" where
  \<comment> \<open>\<^verbatim>\<open>Array.prototype.indexOf\<close> on an array of strings: first position that is
      strictly equal to the value, or \<open>-1\<close>\<close>
  "indexOf [] v = - 1"
| "indexOf (s # ss) v =
     (if v = JStr s then 0
      else (let i = indexOf ss v in if i < 0 then - 1 else i + 1))"

definition STAGE_ORDER :: "string list" where
  "STAGE_ORDER =
     [''download'', ''transcribe'', ''chunk'', ''translate'', ''tts'', ''render'', ''done'']"

section \<open>Snapshots, the page and the module state\<close>

record snapshot =
  status :: jsval
  stage :: jsval
  progress :: jsval
  message :: jsval
  error :: jsval

text \<open>
  One element of \<^verbatim>\<open>$$('.stage')\<close>: its \<^verbatim>\<open>data-stage\<close> attribute, its class list and the
  text of its \<^verbatim>\<open>.stage-status\<close> child. The markup is not part of the sources, so the list
  of stage elements is part of the state and every statement quantifies over it.
\<close>

record stage_el =
  dataStage :: jsval
  classes :: "string set"
  stageStatus :: string

definition complete_text :: string where
  \<comment> \<open>\<^verbatim>\<open>'Complete '\<close> followed by the check mark U+2713, in UTF-8\<close>
  "complete_text = ''Complete '' @ [CHR 0xE2, CHR 0x9C, CHR 0x93]"

text \<open>
  The module-level variables (\<^verbatim>\<open>currentJobId\<close>, \<^verbatim>\<open>eventSource\<close>, \<^verbatim>\<open>pollTimer\<close>), the
  variables of the closure that \<^verbatim>\<open>startSSE\<close> creates (\<^verbatim>\<open>jobId\<close>, \<^verbatim>\<open>retryCount\<close>), what the
  browser holds for the page (pending \<^verbatim>\<open>setTimeout(connect, d)\<close> callbacks as their delays
  in milliseconds, poll requests sent and not yet answered, the \<^verbatim>\<open>yt_dub_job_id\<close> item of
  \<^verbatim>\<open>localStorage\<close> and whether the storage layer faults on access), and the elements of
  the page the functions write. A field of the page holds the value the code assigned to
  it last: a \<^verbatim>\<open>style.display\<close> or \<^verbatim>\<open>style.width\<close>, a \<^verbatim>\<open>textContent\<close>, an \<^verbatim>\<open>href\<close>, the
  \<^verbatim>\<open>disabled\<close> flag of the submit button.
\<close>

record state =
  currentJobId :: jsval
  eventSource :: "string option"
  sseJobId :: jsval
  retryCount :: nat
  reconnects :: "nat list"
  pollTimer :: "string option"
  pollsInFlight :: nat
  storageFaulty :: bool
  yt_dub_job_id :: "string option"
  progressSectionDisplay :: string
  jobIdLabel :: string
  stages :: "stage_el list"
  progressFillWidth :: string
  progressText :: string
  statusMessage :: string
  resultSectionDisplay :: string
  resultSuccessDisplay :: string
  resultErrorDisplay :: string
  resultMessage :: string
  errorMessage :: string
  downloadHref :: string
  submitDisabled :: bool
  btnTextDisplay :: string
  btnLoadingDisplay :: string

section \<open>Exceptions\<close>

datatype exn = TypeError | SyntaxError | StorageError

text \<open>
  A function either returns or throws; in both cases the writes it made so far stay.
\<close>

datatype outcome = Returns state | Throws exn state

fun state_of :: "outcome \<Rightarrow> state" where
  "state_of (Returns st) = st"
| "state_of (Throws e st) = st"

fun andThen :: "outcome \<Rightarrow> (state \<Rightarrow> outcome) \<Rightarrow> outcome" where
  \<comment> \<open>sequencing of two statements\<close>
  "andThen (Returns st) f = f st"
| "andThen (Throws e st) f = Throws e st"

section \<open>The resume store: \<^verbatim>\<open>localStorage\<close>\<close>

text \<open>
  The three calls the code makes on \<^verbatim>\<open>localStorage\<close>, all with the key
  \<^verbatim>\<open>'yt_dub_job_id'\<close>. A storage layer that faults makes each of them throw.
\<close>

definition getItem :: "state \<Rightarrow> exn + string option" where
  "getItem st = (if storageFaulty st then Inl StorageError else Inr (yt_dub_job_id st))"

definition setItem :: "jsval \<Rightarrow> state \<Rightarrow> outcome" where
  "setItem v st =
     (if storageFaulty st then Throws StorageError st
      else Returns (st\<lparr>yt_dub_job_id := Some (toString v)\<rparr>))"

definition removeItem :: "state \<Rightarrow> outcome" where
  "removeItem st =
     (if storageFaulty st then Throws StorageError st
      else Returns (st\<lparr>yt_dub_job_id := None\<rparr>))"

section \<open>Progress display and results\<close>

definition resetSubmitBtn :: "state \<Rightarrow> state" where
  "resetSubmitBtn st =
     st\<lparr>submitDisabled := False, btnTextDisplay := ''inline'', btnLoadingDisplay := ''none''\<rparr>"

definition showProgress :: "jsval \<Rightarrow> state \<Rightarrow> state" where
  "showProgress jobId st =
     st\<lparr>progressSectionDisplay := ''block'',
        jobIdLabel := ''Job: '' @ toString jobId,
        resultSectionDisplay := ''none'',
        stages := map (\<lambda>s. s\<lparr>classes := classes s - {''active'', ''done''},
                              stageStatus := ''Waiting''\<rparr>) (stages st),
        progressFillWidth := ''0%'',
        progressText := ''0%''\<rparr>"

definition stopPolling :: "state \<Rightarrow> state" where
  "stopPolling st = (case pollTimer st of None \<Rightarrow> st | Some t \<Rightarrow> st\<lparr>pollTimer := None\<rparr>)"

definition closeEventSource :: "state \<Rightarrow> state" where
  \<comment> \<open>\<^verbatim>\<open>if (eventSource) { eventSource.close(); eventSource = null; }\<close>\<close>
  "closeEventSource st =
     (case eventSource st of None \<Rightarrow> st | Some u \<Rightarrow> st\<lparr>eventSource := None\<rparr>)"

definition finishSuccess :: "snapshot \<Rightarrow> state \<Rightarrow> outcome" where
  "finishSuccess data st =
     andThen (removeItem (stopPolling (closeEventSource st)))
       (\<lambda>st1. Returns (resetSubmitBtn
          (st1\<lparr>stages := map (\<lambda>s. s\<lparr>classes := insert ''done'' (classes s - {''active''}),
                                     stageStatus := complete_text\<rparr>) (stages st1),
               progressFillWidth := ''100%'',
               progressText := ''100%'',
               resultSectionDisplay := ''block'',
               resultSuccessDisplay := ''block'',
               resultErrorDisplay := ''none'',
               resultMessage :=
                 toString (js_or (message data)
                                 (JStr ''Your video has been dubbed successfully!'')),
               downloadHref := ''/api/download/'' @ toString (currentJobId st1)\<rparr>)))"

definition finishError :: "snapshot \<Rightarrow> state \<Rightarrow> outcome" where
  "finishError data st =
     andThen (removeItem st)
       (\<lambda>st1. Returns (resetSubmitBtn
          ((closeEventSource st1)
             \<lparr>resultSectionDisplay := ''block'',
              resultSuccessDisplay := ''none'',
              resultErrorDisplay := ''block'',
              errorMessage :=
                toString (js_or (error data) (JStr ''An unknown error occurred.''))\<rparr>)))"

definition renderStage :: "int \<Rightarrow> jsval \<Rightarrow> stage_el \<Rightarrow> stage_el" where
  \<comment> \<open>the body of the \<^verbatim>\<open>forEach\<close> in \<^verbatim>\<open>updateProgress\<close>\<close>
  "renderStage currentIdx st_status stageEl =
     (let stageIdx = indexOf STAGE_ORDER (dataStage stageEl);
          el1 = stageEl\<lparr>classes := classes stageEl - {''active'', ''done''}\<rparr>
      in if stageIdx < currentIdx
         then el1\<lparr>classes := insert ''done'' (classes el1), stageStatus := complete_text\<rparr>
         else if stageIdx = currentIdx \<and> st_status = JStr ''running''
         then el1\<lparr>classes := insert ''active'' (classes el1),
                  stageStatus := ''Processing...''\<rparr>
         else el1)"

definition updateProgress :: "snapshot \<Rightarrow> state \<Rightarrow> outcome" where
  "updateProgress data st =
     (let pct = js_or (progress data) (JNum 0);
          st1 = st\<lparr>progressFillWidth := toString pct @ ''%'',
                   progressText := toString pct @ ''%''\<rparr>;
          st2 = (if truthy (message data)
                 then st1\<lparr>statusMessage := toString (message data)\<rparr> else st1);
          currentIdx = indexOf STAGE_ORDER (stage data);
          st3 = st2\<lparr>stages := map (renderStage currentIdx (status data)) (stages st2)\<rparr>
      in if status data = JStr ''complete'' then finishSuccess data st3
         else if status data = JStr ''error'' then finishError data st3
         else Returns st3)"

section \<open>The push channel and the poll channel\<close>

definition maxRetries :: nat where
  "maxRetries = 5"

definition connect :: "state \<Rightarrow> state" where
  \<comment> \<open>\<^verbatim>\<open>eventSource = new EventSource(`/api/status/${jobId}`)\<close>\<close>
  "connect st = st\<lparr>eventSource := Some (''/api/status/'' @ toString (sseJobId st))\<rparr>"

datatype sse_data = Malformed | Parsed snapshot
  \<comment> \<open>what \<^verbatim>\<open>JSON.parse(event.data)\<close> does: throw, or give the snapshot\<close>

definition sse_onmessage :: "sse_data \<Rightarrow> state \<Rightarrow> state" where
  \<comment> \<open>the whole body is in \<^verbatim>\<open>try\<close>; the \<^verbatim>\<open>catch\<close> logs and goes on, so the handler ends
      in the state reached when the exception was thrown. \<^verbatim>\<open>eventSource.close()\<close> on
      \<^verbatim>\<open>null\<close> is a TypeError.\<close>
  "sse_onmessage ev st =
     state_of
       (case ev of
          Malformed \<Rightarrow> Throws SyntaxError (st\<lparr>retryCount := 0\<rparr>)
        | Parsed data \<Rightarrow>
            andThen (updateProgress data (st\<lparr>retryCount := 0\<rparr>))
              (\<lambda>st1. if status data = JStr ''complete'' \<or> status data = JStr ''error''
                      then (case eventSource st1 of
                              None \<Rightarrow> Throws TypeError st1
                            | Some u \<Rightarrow> Returns (stopPolling (st1\<lparr>eventSource := None\<rparr>)))
                      else Returns st1))"

definition sse_onerror :: "state \<Rightarrow> outcome" where
  "sse_onerror st =
     (case eventSource st of
        None \<Rightarrow> Throws TypeError st
      | Some u \<Rightarrow>
          (let st1 = st\<lparr>eventSource := None, retryCount := retryCount st + 1\<rparr>
           in if retryCount st1 \<le> maxRetries
              then Returns (st1\<lparr>reconnects := reconnects st1 @ [2000]\<rparr>)
              else Returns st1))"

definition startPolling :: "jsval \<Rightarrow> state \<Rightarrow> state" where
  \<comment> \<open>the interval timer is kept as the address it polls\<close>
  "startPolling jobId st = (stopPolling st)\<lparr>pollTimer := Some (''/api/job/'' @ toString jobId)\<rparr>"

definition startSSE :: "jsval \<Rightarrow> state \<Rightarrow> state" where
  \<comment> \<open>a call creates the closure variables \<^verbatim>\<open>jobId\<close> and \<^verbatim>\<open>retryCount\<close>; the state keeps
      those of the latest call. Closing the subscription of an earlier call leaves the
      variable \<^verbatim>\<open>eventSource\<close> as it is, and \<^verbatim>\<open>connect\<close> overwrites it.\<close>
  "startSSE jobId st =
     startPolling jobId
       (connect ((case eventSource st of None \<Rightarrow> st | Some u \<Rightarrow> st)
                   \<lparr>sseJobId := jobId, retryCount := 0\<rparr>))"

datatype body = BadBody | Body snapshot
  \<comment> \<open>what \<^verbatim>\<open>await res.json()\<close> does: reject, or give the snapshot\<close>

datatype response = NetworkError | Response bool body
  \<comment> \<open>what \<^verbatim>\<open>await fetch(...)\<close> does: reject, or give a response with its \<^verbatim>\<open>ok\<close> flag\<close>

definition poll_tick :: "state \<Rightarrow> state" where
  \<comment> \<open>the interval callback up to its first \<^verbatim>\<open>await\<close>: the request is sent\<close>
  "poll_tick st = st\<lparr>pollsInFlight := pollsInFlight st + 1\<rparr>"

definition poll_response :: "response \<Rightarrow> state \<Rightarrow> state" where
  \<comment> \<open>the rest of the interval callback, run when the request is answered; the
      \<^verbatim>\<open>catch\<close> is empty\<close>
  "poll_response r st =
     (let st0 = st\<lparr>pollsInFlight := pollsInFlight st - 1\<rparr>
      in state_of
           (case r of
              NetworkError \<Rightarrow> Throws TypeError st0
            | Response ok b \<Rightarrow>
                if ok
                then (case b of
                        BadBody \<Rightarrow> Throws SyntaxError st0
                      | Body data \<Rightarrow>
                          andThen (updateProgress data st0)
                            (\<lambda>st1. if status data = JStr ''complete''
                                       \<or> status data = JStr ''error''
                                    then Returns (closeEventSource (stopPolling st1))
                                    else Returns st1))
                else Returns st0))"

subsection \<open>Events of the browser\<close>

text \<open>
  Handlers run one at a time, each to its end. An event can occur only where the browser
  has something to deliver: a message or a transport error on an open subscription, a
  reconnection timer that is pending, a tick of a poll timer that is set, the answer to a
  poll request that is in flight.
\<close>

datatype event =
  SseMessage sse_data | SseError | ReconnectFire | PollTick | PollResponse response

fun enabled :: "event \<Rightarrow> state \<Rightarrow> bool" where
  "enabled (SseMessage d) st = (eventSource st \<noteq> None)"
| "enabled SseError st = (eventSource st \<noteq> None)"
| "enabled ReconnectFire st = (reconnects st \<noteq> [])"
| "enabled PollTick st = (pollTimer st \<noteq> None)"
| "enabled (PollResponse r) st = (0 < pollsInFlight st)"

fun handle :: "event \<Rightarrow> state \<Rightarrow> state" where
  "handle (SseMessage d) st = sse_onmessage d st"
| "handle SseError st = state_of (sse_onerror st)"
| "handle ReconnectFire st = connect (st\<lparr>reconnects := tl (reconnects st)\<rparr>)"
| "handle PollTick st = poll_tick st"
| "handle (PollResponse r) st = poll_response r st"

fun run :: "event list \<Rightarrow> state \<Rightarrow> state option" where
  "run [] st = Some st"
| "run (e # es) st = (if enabled e st then run es (handle e st) else None)"

section \<open>Starting a session: resume and submit\<close>

definition resume_try :: "response \<Rightarrow> string \<Rightarrow> state \<Rightarrow> outcome" where
  \<comment> \<open>the \<^verbatim>\<open>try\<close> block of \<^verbatim>\<open>resumeActiveJob\<close>\<close>
  "resume_try r savedJobId st =
     (case r of
        NetworkError \<Rightarrow> Throws TypeError st
      | Response ok b \<Rightarrow>
          if \<not> ok then removeItem st
          else (case b of
                  BadBody \<Rightarrow> Throws SyntaxError st
                | Body data \<Rightarrow>
                    if status data = JStr ''running'' \<or> status data = JStr ''queued''
                    then andThen
                           (updateProgress data
                              (showProgress (JStr savedJobId)
                                 (st\<lparr>currentJobId := JStr savedJobId\<rparr>)))
                           (\<lambda>st1. Returns
                              ((startSSE (JStr savedJobId) st1)
                                 \<lparr>submitDisabled := True,
                                  btnTextDisplay := ''none'',
                                  btnLoadingDisplay := ''inline-flex''\<rparr>))
                    else if status data = JStr ''complete''
                    then andThen
                           (updateProgress data
                              (showProgress (JStr savedJobId)
                                 (st\<lparr>currentJobId := JStr savedJobId\<rparr>)))
                           (finishSuccess data)
                    else if status data = JStr ''error''
                    then andThen
                           (updateProgress data
                              (showProgress (JStr savedJobId)
                                 (st\<lparr>currentJobId := JStr savedJobId\<rparr>)))
                           (finishError data)
                    else removeItem st))"

definition resumeActiveJob :: "response \<Rightarrow> state \<Rightarrow> outcome" where
  \<comment> \<open>\<^verbatim>\<open>r\<close> is the answer to the one state query, sent only when an id is stored;
      \<^verbatim>\<open>getItem\<close> is outside the \<^verbatim>\<open>try\<close>, the \<^verbatim>\<open>catch\<close> removes the item\<close>
  "resumeActiveJob r st =
     (case getItem st of
        Inl e \<Rightarrow> Throws e st
      | Inr saved \<Rightarrow>
          (case saved of
             None \<Rightarrow> Returns st
           | Some savedJobId \<Rightarrow>
               if savedJobId = [] then Returns st
               else (case resume_try r savedJobId st of
                       Returns st1 \<Rightarrow> Returns st1
                     | Throws e st1 \<Rightarrow> removeItem st1)))"

record submit_reply =
  reply_error :: jsval
  job_id :: jsval

datatype submit_body = BadReply | Reply submit_reply

datatype submit_response = SubmitNetworkError | SubmitResponse bool submit_body

definition showError :: "string \<Rightarrow> state \<Rightarrow> state" where
  "showError msg st =
     st\<lparr>resultSectionDisplay := ''block'',
        resultSuccessDisplay := ''none'',
        resultErrorDisplay := ''block'',
        errorMessage := msg\<rparr>"

definition submit_try :: "submit_response \<Rightarrow> state \<Rightarrow> outcome" where
  \<comment> \<open>the \<^verbatim>\<open>try\<close> block of \<^verbatim>\<open>handleSubmit\<close>\<close>
  "submit_try r st =
     (case r of
        SubmitNetworkError \<Rightarrow> Throws TypeError st
      | SubmitResponse ok b \<Rightarrow>
          (case b of
             BadReply \<Rightarrow> Throws SyntaxError st
           | Reply data \<Rightarrow>
               if \<not> ok
               then Returns
                      (resetSubmitBtn
                         (showError
                            (toString (js_or (reply_error data)
                                             (JStr ''Failed to start dubbing''))) st))
               else andThen (setItem (job_id data) (st\<lparr>currentJobId := job_id data\<rparr>))
                      (\<lambda>st1. Returns
                         (startSSE (currentJobId st1)
                            (showProgress (currentJobId st1) st1)))))"

definition handleSubmit :: "bool \<Rightarrow> submit_response \<Rightarrow> state \<Rightarrow> state" where
  \<comment> \<open>\<^verbatim>\<open>valid\<close> is the result of \<^verbatim>\<open>validateUrl()\<close>, \<^verbatim>\<open>r\<close> the answer to the submission;
      the form fields that make the payload are not part of the state\<close>
  "handleSubmit valid r st =
     (if \<not> valid then st
      else (case submit_try r
                   (st\<lparr>submitDisabled := True,
                       btnTextDisplay := ''none'',
                       btnLoadingDisplay := ''inline-flex''\<rparr>) of
              Returns st1 \<Rightarrow> st1
            | Throws e st1 \<Rightarrow>
                resetSubmitBtn (showError ''Network error. Is the server running?'' st1)))"

section \<open>A page to run the handlers on\<close>

text \<open>
  The page as it is loaded, with one stage element for each name of \<open>STAGE_ORDER\<close>,
  nothing stored and no session: the concrete input of the examples below.
\<close>

definition page0 :: state where
  "page0 =
     \<lparr>currentJobId = JNull, eventSource = None, sseJobId = JUndefined, retryCount = 0,
      reconnects = [], pollTimer = None, pollsInFlight = 0, storageFaulty = False,
      yt_dub_job_id = None, progressSectionDisplay = ''none'', jobIdLabel = [],
      stages = map (\<lambda>n. \<lparr>dataStage = JStr n, classes = {''stage''},
                           stageStatus = ''Waiting''\<rparr>) STAGE_ORDER,
      progressFillWidth = ''0%'', progressText = ''0%'', statusMessage = [],
      resultSectionDisplay = ''none'', resultSuccessDisplay = ''none'',
      resultErrorDisplay = ''none'', resultMessage = [], errorMessage = [],
      downloadHref = [], submitDisabled = False, btnTextDisplay = ''inline'',
      btnLoadingDisplay = ''none''\<rparr>"

text \<open>The snapshots of the example scenarios.\<close>

definition snap_queued :: snapshot where
  "snap_queued = \<lparr>status = JStr ''queued'', stage = JNull, progress = JNum 0,
      message = JUndefined, error = JUndefined\<rparr>"

definition snap_running :: snapshot where
  "snap_running = \<lparr>status = JStr ''running'', stage = JStr ''transcribe'', progress = JNum 25,
      message = JUndefined, error = JUndefined\<rparr>"

definition snap_complete :: snapshot where
  "snap_complete = \<lparr>status = JStr ''complete'', stage = JUndefined, progress = JNum 100,
      message = JStr ''done'', error = JUndefined\<rparr>"

definition snap_error :: snapshot where
  "snap_error = \<lparr>status = JStr ''error'', stage = JUndefined, progress = JUndefined,
      message = JUndefined, error = JStr ''disk full''\<rparr>"

text \<open>
  The display rule in the spec's words, to compare the code with: the percentage clamped
  to the interval from 0 to 100.
\<close>

definition spec_clamp :: "int \<Rightarrow> int" where
  "spec_clamp p = max 0 (min 100 p)"

text \<open>
  A session started by a submission that the service answered with the job id
  \<^verbatim>\<open>abc123\<close>, and the events of five transport failures of the push channel in a row:
  each failed connection is followed by the reconnection timer.
\<close>

definition session_abc :: state where
  "session_abc =
     handleSubmit True
       (SubmitResponse True (Reply \<lparr>reply_error = JUndefined, job_id = JStr ''abc123''\<rparr>)) page0"

definition five_failures :: "event list" where
  "five_failures =
     [SseError, ReconnectFire, SseError, ReconnectFire, SseError, ReconnectFire, SseError,
      ReconnectFire, SseError]"

section \<open>Positions in the stage order\<close>

lemma indexOf_nth:
  "distinct xs \<Longrightarrow> i < length xs \<Longrightarrow> indexOf xs (JStr (xs ! i)) = int i"
proof (induction xs arbitrary: i)
  case Nil
  then show ?case by simp
next
  case (Cons x xs)
  show ?case
  proof (cases i)
    case 0
    then show ?thesis by simp
  next
    case (Suc k)
    with Cons.prems have "k < length xs" "xs ! k \<noteq> x" "distinct xs" by auto
    with Cons.IH[of k] Suc show ?thesis by (simp add: Let_def)
  qed
qed

lemma indexOf_notin: "v \<notin> JStr ` set xs \<Longrightarrow> indexOf xs v = - 1"
  by (induction xs) (auto simp: Let_def)

lemma distinct_STAGE_ORDER: "distinct STAGE_ORDER"
  by (simp add: STAGE_ORDER_def)

lemma stage_index: "i < length STAGE_ORDER \<Longrightarrow> indexOf STAGE_ORDER (JStr (STAGE_ORDER ! i)) = int i"
  by (rule indexOf_nth[OF distinct_STAGE_ORDER])

lemma updateProgress_nonterminal:
  "status d \<noteq> JStr ''complete'' \<Longrightarrow> status d \<noteq> JStr ''error'' \<Longrightarrow>
   \<exists>st'. updateProgress d st = Returns st' \<and>
     stages st' = map (renderStage (indexOf STAGE_ORDER (stage d)) (status d)) (stages st)"
  by (simp add: updateProgress_def Let_def)

section \<open>Stage display\<close>

text \<open>
  In what follows a stage element is rendered complete when its class list holds
  \<^verbatim>\<open>done\<close> and not \<^verbatim>\<open>active\<close>, in progress when it holds \<^verbatim>\<open>active\<close> and not \<^verbatim>\<open>done\<close>,
  pending when it holds neither. \<^verbatim>\<open>updateProgress\<close> writes the status text of the
  elements it marks and leaves the text of a pending element as it was.
\<close>

text \<open>
  Claim C4. For a snapshot with status \<^verbatim>\<open>running\<close> whose stage is the \<open>i\<close>-th name of
  the fixed sequence, \<^verbatim>\<open>updateProgress\<close> returns, keeps the stage elements, and renders
  every element whose stage is at a position before \<open>i\<close> complete (text
  \<^verbatim>\<open>Complete\<close> and the check mark), the element at position \<open>i\<close> in progress (text
  \<^verbatim>\<open>Processing...\<close>) and every element at a later position pending (text unchanged).
\<close>

theorem running_stage_display:
  assumes "status d = JStr ''running''" and "i < length STAGE_ORDER"
    and "stage d = JStr (STAGE_ORDER ! i)"
  shows "\<exists>st'. updateProgress d st = Returns st' \<and>
           length (stages st') = length (stages st) \<and>
           (\<forall>k < length (stages st). \<forall>j < length STAGE_ORDER.
              dataStage (stages st ! k) = JStr (STAGE_ORDER ! j) \<longrightarrow>
                dataStage (stages st' ! k) = JStr (STAGE_ORDER ! j) \<and>
                (j < i \<longrightarrow> ''done'' \<in> classes (stages st' ! k)
                            \<and> ''active'' \<notin> classes (stages st' ! k)
                            \<and> stageStatus (stages st' ! k) = complete_text) \<and>
                (j = i \<longrightarrow> ''active'' \<in> classes (stages st' ! k)
                            \<and> ''done'' \<notin> classes (stages st' ! k)
                            \<and> stageStatus (stages st' ! k) = ''Processing...'') \<and>
                (i < j \<longrightarrow> ''active'' \<notin> classes (stages st' ! k)
                            \<and> ''done'' \<notin> classes (stages st' ! k)
                            \<and> stageStatus (stages st' ! k) = stageStatus (stages st ! k)))"
proof -
  from assms(1) have nt: "status d \<noteq> JStr ''complete''" "status d \<noteq> JStr ''error''" by auto
  from updateProgress_nonterminal[OF nt, of st] obtain st' where
    r: "updateProgress d st = Returns st'"
    and s: "stages st' = map (renderStage (indexOf STAGE_ORDER (stage d)) (status d)) (stages st)"
    by blast
  have ci: "indexOf STAGE_ORDER (stage d) = int i"
    using assms(2,3) by (simp add: stage_index)
  show ?thesis
    using r s ci assms(1) by (auto simp: renderStage_def Let_def stage_index)
qed

theorem running_stage_display_witness:
  "status snap_running = JStr ''running'' \<and> 1 < length STAGE_ORDER \<and>
   stage snap_running = JStr (STAGE_ORDER ! 1) \<and>
   (\<exists>st'. updateProgress snap_running page0 = Returns st' \<and>
      ''done'' \<in> classes (stages st' ! 0) \<and> ''active'' \<in> classes (stages st' ! 1) \<and>
      ''active'' \<notin> classes (stages st' ! 2) \<and> ''done'' \<notin> classes (stages st' ! 2))"
proof -
  have h1: "status snap_running = JStr ''running''" by (simp add: snap_running_def)
  have h2: "1 < length STAGE_ORDER" by (simp add: STAGE_ORDER_def)
  have h3: "stage snap_running = JStr (STAGE_ORDER ! 1)"
    by (simp add: snap_running_def STAGE_ORDER_def)
  have p: "length (stages page0) = 7" "dataStage (stages page0 ! 0) = JStr (STAGE_ORDER ! 0)"
    "dataStage (stages page0 ! 1) = JStr (STAGE_ORDER ! 1)"
    "dataStage (stages page0 ! 2) = JStr (STAGE_ORDER ! 2)"
    by (simp_all add: page0_def STAGE_ORDER_def)
  from running_stage_display[OF h1 h2 h3, of page0] obtain st' where
    r: "updateProgress snap_running page0 = Returns st'"
    and a: "\<forall>k < length (stages page0). \<forall>j < length STAGE_ORDER.
              dataStage (stages page0 ! k) = JStr (STAGE_ORDER ! j) \<longrightarrow>
                dataStage (stages st' ! k) = JStr (STAGE_ORDER ! j) \<and>
                (j < 1 \<longrightarrow> ''done'' \<in> classes (stages st' ! k)
                            \<and> ''active'' \<notin> classes (stages st' ! k)
                            \<and> stageStatus (stages st' ! k) = complete_text) \<and>
                (j = 1 \<longrightarrow> ''active'' \<in> classes (stages st' ! k)
                            \<and> ''done'' \<notin> classes (stages st' ! k)
                            \<and> stageStatus (stages st' ! k) = ''Processing...'') \<and>
                (1 < j \<longrightarrow> ''active'' \<notin> classes (stages st' ! k)
                            \<and> ''done'' \<notin> classes (stages st' ! k)
                            \<and> stageStatus (stages st' ! k) = stageStatus (stages page0 ! k))"
    by blast
  have l: "length STAGE_ORDER = 7" by (simp add: STAGE_ORDER_def)
  from a[rule_format, of 0 0] p l have a0: "''done'' \<in> classes (stages st' ! 0)" by simp
  from a[rule_format, of 1 1] p l have a1: "''active'' \<in> classes (stages st' ! 1)" by simp
  from a[rule_format, of 2 2] p l have a2: "''active'' \<notin> classes (stages st' ! 2)"
    "''done'' \<notin> classes (stages st' ! 2)" by simp_all
  from h1 h2 h3 r a0 a1 a2 show ?thesis by blast
qed

text \<open>
  Claim C5. For a snapshot with status \<^verbatim>\<open>queued\<close>, whatever its stage, \<^verbatim>\<open>updateProgress\<close>
  marks no stage element in progress: afterwards no element carries the class
  \<^verbatim>\<open>active\<close>, and no label is set to \<^verbatim>\<open>Processing...\<close>. An element whose stage is before
  the snapshot's stage is rendered complete, with its label; every other element has
  neither class and keeps the label it had (\<^verbatim>\<open>Waiting\<close> after \<^verbatim>\<open>showProgress\<close>; a label
  that an earlier snapshot wrote stays).
\<close>

theorem queued_never_in_progress:
  assumes "status d = JStr ''queued''"
  shows "\<exists>st'. updateProgress d st = Returns st' \<and>
           length (stages st') = length (stages st) \<and>
           (\<forall>el \<in> set (stages st'). ''active'' \<notin> classes el) \<and>
           (\<forall>k < length (stages st).
              dataStage (stages st' ! k) = dataStage (stages st ! k) \<and>
              ''active'' \<notin> classes (stages st' ! k) \<and>
              (if indexOf STAGE_ORDER (dataStage (stages st ! k))
                    < indexOf STAGE_ORDER (stage d)
               then ''done'' \<in> classes (stages st' ! k) \<and>
                    stageStatus (stages st' ! k) = complete_text
               else ''done'' \<notin> classes (stages st' ! k) \<and>
                    stageStatus (stages st' ! k) = stageStatus (stages st ! k)) \<and>
              (stageStatus (stages st ! k) \<noteq> ''Processing...'' \<longrightarrow>
                 stageStatus (stages st' ! k) \<noteq> ''Processing...''))"
proof -
  from assms have nt: "status d \<noteq> JStr ''complete''" "status d \<noteq> JStr ''error''" by auto
  from updateProgress_nonterminal[OF nt, of st] obtain st' where
    r: "updateProgress d st = Returns st'"
    and s: "stages st' = map (renderStage (indexOf STAGE_ORDER (stage d)) (status d)) (stages st)"
    by blast
  have ne: "complete_text \<noteq> ''Processing...''" by (simp add: complete_text_def)
  show ?thesis using r s assms ne by (auto simp: renderStage_def Let_def)
qed

theorem queued_never_in_progress_witness:
  "status snap_queued = JStr ''queued'' \<and>
   (\<exists>st'. updateProgress (snap_queued\<lparr>stage := JStr ''tts''\<rparr>) page0 = Returns st' \<and>
      length (stages st') = 7 \<and> (\<forall>el \<in> set (stages st'). ''active'' \<notin> classes el) \<and>
      (\<forall>k < 7. ''active'' \<notin> classes (stages st' ! k) \<and>
                stageStatus (stages st' ! k) \<noteq> ''Processing...'') \<and>
      stageStatus (stages st' ! 4) = ''Waiting'' \<and> ''done'' \<notin> classes (stages st' ! 4) \<and>
      stageStatus (stages st' ! 3) = complete_text)"
proof -
  let ?d = "snap_queued\<lparr>stage := JStr ''tts''\<rparr>"
  have h0: "status snap_queued = JStr ''queued''" by (simp add: snap_queued_def)
  then have h: "status ?d = JStr ''queued''" by simp
  have l: "length (stages page0) = 7" by (simp add: page0_def STAGE_ORDER_def)
  have l': "length STAGE_ORDER = 7" by (simp add: STAGE_ORDER_def)
  have w: "stageStatus (stages page0 ! k) = ''Waiting''" if "k < 7" for k
    using that l' by (simp add: page0_def)
  have i4: "indexOf STAGE_ORDER (stage ?d) = 4" by (simp add: STAGE_ORDER_def)
  have d4: "indexOf STAGE_ORDER (dataStage (stages page0 ! 4)) = 4"
    "indexOf STAGE_ORDER (dataStage (stages page0 ! 3)) = 3"
    by (simp_all add: page0_def STAGE_ORDER_def)
  from queued_never_in_progress[OF h, of page0] obtain st' where
    r: "updateProgress ?d page0 = Returns st'" "length (stages st') = length (stages page0)"
      "\<forall>el \<in> set (stages st'). ''active'' \<notin> classes el"
    and a: "\<forall>k < length (stages page0).
              dataStage (stages st' ! k) = dataStage (stages page0 ! k) \<and>
              ''active'' \<notin> classes (stages st' ! k) \<and>
              (if indexOf STAGE_ORDER (dataStage (stages page0 ! k))
                    < indexOf STAGE_ORDER (stage ?d)
               then ''done'' \<in> classes (stages st' ! k) \<and>
                    stageStatus (stages st' ! k) = complete_text
               else ''done'' \<notin> classes (stages st' ! k) \<and>
                    stageStatus (stages st' ! k) = stageStatus (stages page0 ! k)) \<and>
              (stageStatus (stages page0 ! k) \<noteq> ''Processing...'' \<longrightarrow>
                 stageStatus (stages st' ! k) \<noteq> ''Processing...'')"
    by blast
  have b: "''active'' \<notin> classes (stages st' ! k) \<and> stageStatus (stages st' ! k) \<noteq> ''Processing...''"
    if "k < 7" for k
    using a[rule_format, of k] that l w[OF that] by simp
  from a[rule_format, of 4] l i4 d4 w[of 4]
  have c4: "stageStatus (stages st' ! 4) = ''Waiting''" "''done'' \<notin> classes (stages st' ! 4)"
    by simp_all
  from a[rule_format, of 3] l i4 d4
  have c3: "stageStatus (stages st' ! 3) = complete_text" by simp
  from h0 r l b c4 c3 show ?thesis by auto
qed

text \<open>
  Claim C10. For a snapshot that is not terminal and whose stage is not one of the seven
  names (absent, \<^verbatim>\<open>null\<close>, another string or value), every element whose stage is in the
  fixed sequence is rendered pending, its text unchanged, also when the status is
  \<^verbatim>\<open>running\<close>.
\<close>

theorem unknown_stage_all_pending:
  assumes "status d \<noteq> JStr ''complete''" and "status d \<noteq> JStr ''error''"
    and "stage d \<notin> JStr ` set STAGE_ORDER"
  shows "\<exists>st'. updateProgress d st = Returns st' \<and>
           length (stages st') = length (stages st) \<and>
           (\<forall>k < length (stages st).
              dataStage (stages st ! k) \<in> JStr ` set STAGE_ORDER \<longrightarrow>
                dataStage (stages st' ! k) = dataStage (stages st ! k) \<and>
                ''active'' \<notin> classes (stages st' ! k) \<and>
                ''done'' \<notin> classes (stages st' ! k) \<and>
                stageStatus (stages st' ! k) = stageStatus (stages st ! k))"
proof -
  from updateProgress_nonterminal[OF assms(1,2), of st] obtain st' where
    r: "updateProgress d st = Returns st'"
    and s: "stages st' = map (renderStage (indexOf STAGE_ORDER (stage d)) (status d)) (stages st)"
    by blast
  have ci: "indexOf STAGE_ORDER (stage d) = - 1"
    using assms(3) by (rule indexOf_notin)
  have pos: "0 \<le> indexOf STAGE_ORDER v" if "v \<in> JStr ` set STAGE_ORDER" for v
  proof -
    from that obtain j where "j < length STAGE_ORDER" "v = JStr (STAGE_ORDER ! j)"
      by (auto simp: in_set_conv_nth)
    then show ?thesis by (simp add: stage_index)
  qed
  show ?thesis
  proof (intro exI conjI allI impI)
    show "updateProgress d st = Returns st'" by (rule r)
    show "length (stages st') = length (stages st)" by (simp add: s)
  next
    fix k assume k: "k < length (stages st)"
      and m: "dataStage (stages st ! k) \<in> JStr ` set STAGE_ORDER"
    from pos[OF m] have "\<not> indexOf STAGE_ORDER (dataStage (stages st ! k)) < - 1"
      "indexOf STAGE_ORDER (dataStage (stages st ! k)) \<noteq> - 1" by auto
    then have e: "renderStage (- 1) (status d) (stages st ! k) =
        (stages st ! k)\<lparr>classes := classes (stages st ! k) - {''active'', ''done''}\<rparr>"
      by (simp add: renderStage_def Let_def)
    from k have n: "stages st' ! k = renderStage (- 1) (status d) (stages st ! k)"
      by (simp add: s ci)
    show "dataStage (stages st' ! k) = dataStage (stages st ! k)" by (simp add: n e)
    show "''active'' \<notin> classes (stages st' ! k)" by (simp add: n e)
    show "''done'' \<notin> classes (stages st' ! k)" by (simp add: n e)
    show "stageStatus (stages st' ! k) = stageStatus (stages st ! k)" by (simp add: n e)
  qed
qed

theorem unknown_stage_all_pending_witness:
  "status (snap_running\<lparr>stage := JStr ''upload''\<rparr>) \<noteq> JStr ''complete'' \<and>
   status (snap_running\<lparr>stage := JStr ''upload''\<rparr>) \<noteq> JStr ''error'' \<and>
   JStr ''upload'' \<notin> JStr ` set STAGE_ORDER \<and>
   (\<exists>st'. updateProgress (snap_running\<lparr>stage := JStr ''upload''\<rparr>) page0 = Returns st' \<and>
      length (stages st') = 7 \<and>
      (\<forall>k < 7. ''active'' \<notin> classes (stages st' ! k) \<and> ''done'' \<notin> classes (stages st' ! k)))"
proof -
  let ?d = "snap_running\<lparr>stage := JStr ''upload''\<rparr>"
  have h1: "status ?d \<noteq> JStr ''complete''" and h2: "status ?d \<noteq> JStr ''error''"
    by (simp_all add: snap_running_def)
  have h3: "stage ?d \<notin> JStr ` set STAGE_ORDER"
    by (auto simp: snap_running_def STAGE_ORDER_def)
  have l: "length (stages page0) = 7" by (simp add: page0_def STAGE_ORDER_def)
  have l': "length STAGE_ORDER = 7" by (simp add: STAGE_ORDER_def)
  have m: "dataStage (stages page0 ! k) \<in> JStr ` set STAGE_ORDER" if "k < 7" for k
  proof -
    from that l' have "dataStage (stages page0 ! k) = JStr (STAGE_ORDER ! k)"
      by (simp add: page0_def)
    moreover from that l' have "STAGE_ORDER ! k \<in> set STAGE_ORDER" by simp
    ultimately show ?thesis by simp
  qed
  from unknown_stage_all_pending[OF h1 h2 h3, of page0] l m h1 h2 h3 show ?thesis by auto
qed

section \<open>Progress bar\<close>

lemma showInt_150: "showInt 150 = ''150''"
  by (simp add: showInt_def showNat.simps)

lemma showInt_100: "showInt 100 = ''100''"
  by (simp add: showInt_def showNat.simps)

lemma showInt_25: "showInt 25 = ''25''"
  by (simp add: showInt_def showNat.simps)

lemma finishError_bar:
  "progressText (state_of (finishError d st)) = progressText st \<and>
   progressFillWidth (state_of (finishError d st)) = progressFillWidth st"
  by (simp add: finishError_def removeItem_def resetSubmitBtn_def closeEventSource_def
      split: option.splits)

text \<open>
  Claim C6, as stated, fails: \<^verbatim>\<open>updateProgress\<close> writes \<^verbatim>\<open>data.progress || 0\<close> into the bar
  and the label as it is. A \<^verbatim>\<open>running\<close> snapshot with progress 150 is displayed as
  \<^verbatim>\<open>150%\<close>, not as the clamped \<^verbatim>\<open>100%\<close>.
\<close>

theorem progress_not_clamped:
  "progressText (state_of (updateProgress (snap_running\<lparr>progress := JNum 150\<rparr>) page0)) = ''150%'' \<and>
   progressFillWidth (state_of (updateProgress (snap_running\<lparr>progress := JNum 150\<rparr>) page0)) = ''150%'' \<and>
   ''150%'' \<noteq> showInt (spec_clamp 150) @ ''%''"
  by (simp add: updateProgress_def snap_running_def Let_def js_or_def showInt_150 showInt_100 spec_clamp_def)

text \<open>
  Claim C6, amended. For every snapshot whose status is not \<^verbatim>\<open>complete\<close>, what is
  written to the width of the bar and to the label is the snapshot's progress value as
  delivered, followed by the percent sign (0 when the value is absent, \<^verbatim>\<open>null\<close> or 0):
  nothing is clamped, smoothed or interpolated. For an integer from 0 to 100 this is the
  clamped value.
\<close>

theorem progress_shown_as_delivered:
  assumes "status d \<noteq> JStr ''complete''"
  shows "progressText (state_of (updateProgress d st)) = toString (js_or (progress d) (JNum 0)) @ ''%'' \<and>
         progressFillWidth (state_of (updateProgress d st)) = toString (js_or (progress d) (JNum 0)) @ ''%'' \<and>
         (\<forall>n. progress d = JNum n \<and> 0 \<le> n \<and> n \<le> 100 \<longrightarrow>
            progressText (state_of (updateProgress d st)) = showInt (spec_clamp n) @ ''%'')"
proof -
  have a: "progressText (state_of (updateProgress d st)) = toString (js_or (progress d) (JNum 0)) @ ''%''"
    and b: "progressFillWidth (state_of (updateProgress d st)) = toString (js_or (progress d) (JNum 0)) @ ''%''"
    using assms by (simp_all add: updateProgress_def Let_def finishError_bar)
  have c: "toString (js_or (JNum n) (JNum 0)) = showInt (spec_clamp n)" if "0 \<le> n" "n \<le> 100" for n
    using that by (simp add: js_or_def spec_clamp_def)
  from a b c show ?thesis by auto
qed

theorem progress_shown_as_delivered_witness:
  "status snap_running \<noteq> JStr ''complete'' \<and>
   progress snap_running = JNum 25 \<and>
   progressText (state_of (updateProgress snap_running page0)) = ''25%'' \<and>
   progressFillWidth (state_of (updateProgress snap_running page0)) = ''25%'' \<and>
   progressText (state_of (updateProgress snap_running page0)) = showInt (spec_clamp 25) @ ''%''"
proof -
  have h: "status snap_running \<noteq> JStr ''complete''" by (simp add: snap_running_def)
  have p: "progress snap_running = JNum 25" by (simp add: snap_running_def)
  from progress_shown_as_delivered[OF h, of page0] h p show ?thesis
    by (simp add: js_or_def showInt_25 spec_clamp_def)
qed

section \<open>Terminal outcomes\<close>

lemma closeEventSource_eq: "closeEventSource st = st\<lparr>eventSource := None\<rparr>"
  by (cases st) (simp add: closeEventSource_def split: option.splits)

lemma stopPolling_eq: "stopPolling st = st\<lparr>pollTimer := None\<rparr>"
  by (cases st) (simp add: stopPolling_def split: option.splits)

lemma finishSuccess_ok:
  assumes "\<not> storageFaulty st"
  shows "finishSuccess d st = Returns (resetSubmitBtn
          (st\<lparr>eventSource := None, pollTimer := None, yt_dub_job_id := None,
              stages := map (\<lambda>s. s\<lparr>classes := insert ''done'' (classes s - {''active''}),
                                     stageStatus := complete_text\<rparr>) (stages st),
               progressFillWidth := ''100%'',
               progressText := ''100%'',
               resultSectionDisplay := ''block'',
               resultSuccessDisplay := ''block'',
               resultErrorDisplay := ''none'',
               resultMessage :=
                 toString (js_or (message d)
                                 (JStr ''Your video has been dubbed successfully!'')),
               downloadHref := ''/api/download/'' @ toString (currentJobId st)\<rparr>))"
  using assms
  by (simp add: finishSuccess_def removeItem_def stopPolling_eq closeEventSource_eq)

lemma finishError_ok:
  assumes "\<not> storageFaulty st"
  shows "finishError d st = Returns (resetSubmitBtn
          (st\<lparr>yt_dub_job_id := None, eventSource := None,
              resultSectionDisplay := ''block'',
              resultSuccessDisplay := ''none'',
              resultErrorDisplay := ''block'',
              errorMessage :=
                toString (js_or (error d) (JStr ''An unknown error occurred.''))\<rparr>))"
  using assms
  by (simp add: finishError_def removeItem_def closeEventSource_eq)

text \<open>
  Claim C7. On a storage layer that does not fault, a snapshot with status \<^verbatim>\<open>complete\<close>
  makes \<^verbatim>\<open>updateProgress\<close> return with every stage element rendered complete, the bar
  and the label at \<^verbatim>\<open>100%\<close>, the success view shown and the download reference
  \<^verbatim>\<open>/api/download/\<close> followed by the session's job id; a snapshot with status
  \<^verbatim>\<open>error\<close> makes it return with the failure view shown, carrying the snapshot's error
  text (the fixed text \<^verbatim>\<open>An unknown error occurred.\<close> when the snapshot has none).
\<close>

theorem terminal_outcomes:
  assumes "\<not> storageFaulty st"
  shows "(status d = JStr ''complete'' \<longrightarrow>
           (\<exists>st'. updateProgress d st = Returns st' \<and>
              map dataStage (stages st') = map dataStage (stages st) \<and>
              (\<forall>el \<in> set (stages st'). ''done'' \<in> classes el \<and> ''active'' \<notin> classes el \<and>
                 stageStatus el = complete_text) \<and>
              progressFillWidth st' = ''100%'' \<and> progressText st' = ''100%'' \<and>
              resultSectionDisplay st' = ''block'' \<and> resultSuccessDisplay st' = ''block'' \<and>
              resultErrorDisplay st' = ''none'' \<and>
              downloadHref st' = ''/api/download/'' @ toString (currentJobId st))) \<and>
         (status d = JStr ''error'' \<longrightarrow>
           (\<exists>st'. updateProgress d st = Returns st' \<and>
              resultSectionDisplay st' = ''block'' \<and> resultSuccessDisplay st' = ''none'' \<and>
              resultErrorDisplay st' = ''block'' \<and>
              errorMessage st' =
                (if truthy (error d) then toString (error d)
                 else ''An unknown error occurred.'')))"
  using assms
  by (auto simp: updateProgress_def Let_def finishSuccess_ok finishError_ok resetSubmitBtn_def
      js_or_def renderStage_def o_def)

theorem terminal_outcomes_witness:
  "\<not> storageFaulty (page0\<lparr>currentJobId := JStr ''abc123''\<rparr>) \<and>
   status snap_complete = JStr ''complete'' \<and> status snap_error = JStr ''error'' \<and>
   (\<exists>st'. updateProgress snap_complete (page0\<lparr>currentJobId := JStr ''abc123''\<rparr>) = Returns st' \<and>
      length (stages st') = 7 \<and>
      (\<forall>el \<in> set (stages st'). ''done'' \<in> classes el \<and> ''active'' \<notin> classes el) \<and>
      progressText st' = ''100%'' \<and> downloadHref st' = ''/api/download/abc123'') \<and>
   (\<exists>st'. updateProgress snap_error (page0\<lparr>currentJobId := JStr ''abc123''\<rparr>) = Returns st' \<and>
      resultErrorDisplay st' = ''block'' \<and> errorMessage st' = ''disk full'')"
proof -
  let ?st = "page0\<lparr>currentJobId := JStr ''abc123''\<rparr>"
  have h: "\<not> storageFaulty ?st" by (simp add: page0_def)
  have c: "status snap_complete = JStr ''complete''" by (simp add: snap_complete_def)
  have e: "status snap_error = JStr ''error''" "error snap_error = JStr ''disk full''"
    by (simp_all add: snap_error_def)
  have l: "length (map dataStage (stages ?st)) = 7" by (simp add: page0_def STAGE_ORDER_def)
  from terminal_outcomes[OF h, of snap_complete] c obtain st1 where
    s1: "updateProgress snap_complete ?st = Returns st1"
      "map dataStage (stages st1) = map dataStage (stages ?st)"
      "\<forall>el \<in> set (stages st1). ''done'' \<in> classes el \<and> ''active'' \<notin> classes el \<and>
                 stageStatus el = complete_text"
      "progressText st1 = ''100%''"
      "downloadHref st1 = ''/api/download/'' @ toString (currentJobId ?st)"
    by blast
  from s1(2) l have l1: "length (stages st1) = 7" by (metis length_map)
  from terminal_outcomes[OF h, of snap_error] e obtain st2 where
    s2: "updateProgress snap_error ?st = Returns st2" "resultErrorDisplay st2 = ''block''"
      "errorMessage st2 = ''disk full''"
    by auto
  from h c e s1 l1 s2 show ?thesis by auto
qed

section \<open>Runs of a session\<close>

lemmas handler_defs =
  sse_onmessage_def sse_onerror_def poll_tick_def poll_response_def connect_def
  updateProgress_def finishSuccess_def finishError_def renderStage_def removeItem_def
  stopPolling_def closeEventSource_def resetSubmitBtn_def js_or_def Let_def maxRetries_def

lemma session_abc_eq:
  "session_abc =
     page0\<lparr>currentJobId := JStr ''abc123'', eventSource := Some ''/api/status/abc123'',
           sseJobId := JStr ''abc123'', pollTimer := Some ''/api/job/abc123'',
           yt_dub_job_id := Some ''abc123'', progressSectionDisplay := ''block'',
           jobIdLabel := ''Job: abc123'', submitDisabled := True, btnTextDisplay := ''none'',
           btnLoadingDisplay := ''inline-flex''\<rparr>"
  by (simp add: session_abc_def handleSubmit_def submit_try_def setItem_def page0_def
      showProgress_def startSSE_def startPolling_def stopPolling_def connect_def STAGE_ORDER_def)

lemma run_append:
  "run (xs @ ys) s = (case run xs s of None \<Rightarrow> None | Some s' \<Rightarrow> run ys s')"
  by (induction xs arbitrary: s) simp_all

section \<open>The channels after a terminal snapshot\<close>

text \<open>
  Claim C1 does not hold of the code. \<^verbatim>\<open>finishSuccess\<close> closes the subscription, stops the
  poll timer and removes the stored id; \<^verbatim>\<open>finishError\<close> removes the id and closes the
  subscription but does not stop the poll timer. The message handler of the push channel
  would stop it afterwards, but by then \<^verbatim>\<open>eventSource\<close> is \<^verbatim>\<open>null\<close>, so its
  \<^verbatim>\<open>eventSource.close()\<close> throws and the \<^verbatim>\<open>stopPolling()\<close> after it is never reached. In
  the session \<open>session_abc\<close>, after the push channel has delivered the \<^verbatim>\<open>error\<close> snapshot
  the failure view is shown, the stored id is gone and the subscription is closed, and
  the poll timer is still set and can tick. Further, no function cancels a reconnection
  timer: after a transport error and a \<^verbatim>\<open>complete\<close> snapshot from the poll channel the
  timer is still pending, and when it fires the subscription is opened again.
\<close>

theorem error_over_push_keeps_polling:
  "enabled (SseMessage (Parsed snap_error)) session_abc \<and>
   resultErrorDisplay (handle (SseMessage (Parsed snap_error)) session_abc) = ''block'' \<and>
   errorMessage (handle (SseMessage (Parsed snap_error)) session_abc) = ''disk full'' \<and>
   yt_dub_job_id (handle (SseMessage (Parsed snap_error)) session_abc) = None \<and>
   eventSource (handle (SseMessage (Parsed snap_error)) session_abc) = None \<and>
   pollTimer (handle (SseMessage (Parsed snap_error)) session_abc) = Some ''/api/job/abc123'' \<and>
   enabled PollTick (handle (SseMessage (Parsed snap_error)) session_abc) \<and>
   map_option reconnects
     (run [SseError, PollTick, PollResponse (Response True (Body snap_complete))] session_abc)
     = Some [2000] \<and>
   map_option resultSuccessDisplay
     (run [SseError, PollTick, PollResponse (Response True (Body snap_complete))] session_abc)
     = Some ''block'' \<and>
   map_option eventSource
     (run [SseError, PollTick, PollResponse (Response True (Body snap_complete)), ReconnectFire]
        session_abc)
     = Some (Some ''/api/status/abc123'')"
  by (simp add: session_abc_eq page0_def snap_error_def snap_complete_def handler_defs)

section \<open>A snapshot applied again\<close>

lemma renderStage_idem: "renderStage i s (renderStage i s el) = renderStage i s el"
  by (cases el) (auto simp: renderStage_def Let_def)

lemma renderStage_finish:
  "renderStage i s
     ((renderStage i s el)\<lparr>classes := insert ''done'' (classes (renderStage i s el) - {''active''}),
                            stageStatus := complete_text\<rparr>)
     \<lparr>classes := insert ''done''
        (classes (renderStage i s
           ((renderStage i s el)\<lparr>classes := insert ''done'' (classes (renderStage i s el) - {''active''}),
                            stageStatus := complete_text\<rparr>)) - {''active''}),
      stageStatus := complete_text\<rparr>
   = (renderStage i s el)\<lparr>classes := insert ''done'' (classes (renderStage i s el) - {''active''}),
                            stageStatus := complete_text\<rparr>"
  by (cases el) (auto simp: renderStage_def Let_def)

lemma updateProgress_idem_other:
  assumes "status d \<noteq> JStr ''complete''" "status d \<noteq> JStr ''error''"
  shows "updateProgress d (state_of (updateProgress d st)) = updateProgress d st"
  using assms by (simp add: updateProgress_def Let_def o_def renderStage_idem)

lemma updateProgress_idem_error:
  assumes "status d = JStr ''error''"
  shows "updateProgress d (state_of (updateProgress d st)) = updateProgress d st"
  using assms
  by (cases "storageFaulty st")
     (simp_all add: updateProgress_def Let_def o_def renderStage_idem finishError_def
        removeItem_def closeEventSource_eq resetSubmitBtn_def)

lemma updateProgress_idem_complete:
  assumes "status d = JStr ''complete''"
  shows "updateProgress d (state_of (updateProgress d st)) = updateProgress d st"
  using assms
  by (cases "storageFaulty st")
     (simp_all add: updateProgress_def Let_def o_def renderStage_idem renderStage_finish
        finishSuccess_def removeItem_def closeEventSource_eq stopPolling_eq resetSubmitBtn_def)

text \<open>
  Claim C2, as stated, fails: nothing records that a terminal outcome was applied, and
  the answer to a poll request that was in flight when the push channel delivered
  \<^verbatim>\<open>complete\<close> is applied like any other snapshot. After \<^verbatim>\<open>complete\<close> (bar at
  \<^verbatim>\<open>100%\<close>, success view shown), a late \<^verbatim>\<open>running\<close> snapshot puts the bar at \<^verbatim>\<open>25%\<close> and
  marks the second stage in progress; a late \<^verbatim>\<open>error\<close> snapshot replaces the success view
  by the failure view.
\<close>

theorem snapshot_after_outcome_applied:
  "map_option progressText (run [PollTick, SseMessage (Parsed snap_complete)] session_abc)
     = Some ''100%'' \<and>
   map_option resultSuccessDisplay (run [PollTick, SseMessage (Parsed snap_complete)] session_abc)
     = Some ''block'' \<and>
   map_option progressText
     (run [PollTick, SseMessage (Parsed snap_complete),
           PollResponse (Response True (Body snap_running))] session_abc)
     = Some ''25%'' \<and>
   map_option (map classes \<circ> stages)
     (run [PollTick, SseMessage (Parsed snap_complete),
           PollResponse (Response True (Body snap_running))] session_abc)
     = Some [{''stage'', ''done''}, {''stage'', ''active''}, {''stage''}, {''stage''},
             {''stage''}, {''stage''}, {''stage''}] \<and>
   map_option resultSuccessDisplay
     (run [PollTick, SseMessage (Parsed snap_complete),
           PollResponse (Response True (Body snap_error))] session_abc)
     = Some ''none'' \<and>
   map_option errorMessage
     (run [PollTick, SseMessage (Parsed snap_complete),
           PollResponse (Response True (Body snap_error))] session_abc)
     = Some ''disk full''"
  by (simp add: session_abc_eq page0_def snap_error_def snap_complete_def snap_running_def
      handler_defs STAGE_ORDER_def showInt_def showNat.simps insert_commute)

lemma renderStage_then_done:
  "(renderStage i s el)\<lparr>classes := insert ''done'' (classes (renderStage i s el) - {''active''}),
                         stageStatus := complete_text\<rparr>
   = el\<lparr>classes := insert ''done'' (classes el - {''active'', ''done''}),
        stageStatus := complete_text\<rparr>"
  by (cases el) (auto simp: renderStage_def Let_def)

lemma updateProgress_other:
  assumes "status d \<noteq> JStr ''complete''" "status d \<noteq> JStr ''error''"
  shows "updateProgress d st =
     Returns (st\<lparr>progressFillWidth := toString (js_or (progress d) (JNum 0)) @ ''%'',
                 progressText := toString (js_or (progress d) (JNum 0)) @ ''%'',
                 statusMessage := (if truthy (message d) then toString (message d)
                                   else statusMessage st),
                 stages := map (renderStage (indexOf STAGE_ORDER (stage d)) (status d))
                             (stages st)\<rparr>)"
  using assms by (cases st) (simp add: updateProgress_def Let_def)

lemma updateProgress_error:
  assumes "status d = JStr ''error''"
  shows "updateProgress d st =
     (if storageFaulty st
      then Throws StorageError
        (st\<lparr>progressFillWidth := toString (js_or (progress d) (JNum 0)) @ ''%'',
            progressText := toString (js_or (progress d) (JNum 0)) @ ''%'',
            statusMessage := (if truthy (message d) then toString (message d)
                              else statusMessage st),
            stages := map (renderStage (indexOf STAGE_ORDER (stage d)) (status d))
                        (stages st)\<rparr>)
      else Returns
        (st\<lparr>progressFillWidth := toString (js_or (progress d) (JNum 0)) @ ''%'',
            progressText := toString (js_or (progress d) (JNum 0)) @ ''%'',
            statusMessage := (if truthy (message d) then toString (message d)
                              else statusMessage st),
            stages := map (renderStage (indexOf STAGE_ORDER (stage d)) (status d))
                        (stages st),
            yt_dub_job_id := None, eventSource := None,
            resultSectionDisplay := ''block'', resultSuccessDisplay := ''none'',
            resultErrorDisplay := ''block'',
            errorMessage := toString (js_or (error d) (JStr ''An unknown error occurred.'')),
            submitDisabled := False, btnTextDisplay := ''inline'',
            btnLoadingDisplay := ''none''\<rparr>))"
  using assms
  by (cases st)
     (simp add: updateProgress_def Let_def finishError_def removeItem_def closeEventSource_eq
        resetSubmitBtn_def)

lemma updateProgress_complete:
  assumes "status d = JStr ''complete''"
  shows "updateProgress d st =
     (if storageFaulty st
      then Throws StorageError
        (st\<lparr>progressFillWidth := toString (js_or (progress d) (JNum 0)) @ ''%'',
            progressText := toString (js_or (progress d) (JNum 0)) @ ''%'',
            statusMessage := (if truthy (message d) then toString (message d)
                              else statusMessage st),
            stages := map (renderStage (indexOf STAGE_ORDER (stage d)) (status d))
                        (stages st),
            eventSource := None, pollTimer := None\<rparr>)
      else Returns
        (st\<lparr>statusMessage := (if truthy (message d) then toString (message d)
                              else statusMessage st),
            eventSource := None, pollTimer := None, yt_dub_job_id := None,
            stages := map (\<lambda>el. el\<lparr>classes := insert ''done'' (classes el - {''active'', ''done''}),
                                      stageStatus := complete_text\<rparr>) (stages st),
            progressFillWidth := ''100%'', progressText := ''100%'',
            resultSectionDisplay := ''block'', resultSuccessDisplay := ''block'',
            resultErrorDisplay := ''none'',
            resultMessage :=
              toString (js_or (message d) (JStr ''Your video has been dubbed successfully!'')),
            downloadHref := ''/api/download/'' @ toString (currentJobId st),
            submitDisabled := False, btnTextDisplay := ''inline'',
            btnLoadingDisplay := ''none''\<rparr>))"
  using assms
  by (cases st)
     (simp add: updateProgress_def Let_def finishSuccess_def removeItem_def closeEventSource_eq
        stopPolling_eq resetSubmitBtn_def o_def renderStage_then_done)

lemma sse_onmessage_applies:
  "sse_onmessage (Parsed d) st = state_of (updateProgress d (st\<lparr>retryCount := 0\<rparr>))"
proof -
  consider "status d = JStr ''complete''" | "status d = JStr ''error''"
    | "status d \<noteq> JStr ''complete''" "status d \<noteq> JStr ''error''" by blast
  then show ?thesis
  proof cases
    case 1
    then show ?thesis by (simp add: sse_onmessage_def updateProgress_complete)
  next
    case 2
    then show ?thesis by (simp add: sse_onmessage_def updateProgress_error)
  next
    case 3
    then show ?thesis by (simp add: sse_onmessage_def updateProgress_other)
  qed
qed

lemma poll_response_applies:
  "poll_response (Response True (Body d)) st =
     (if (status d = JStr ''complete'' \<or> status d = JStr ''error'') \<and> \<not> storageFaulty st
      then (state_of (updateProgress d (st\<lparr>pollsInFlight := pollsInFlight st - 1\<rparr>)))
             \<lparr>eventSource := None, pollTimer := None\<rparr>
      else state_of (updateProgress d (st\<lparr>pollsInFlight := pollsInFlight st - 1\<rparr>)))"
proof -
  consider "status d = JStr ''complete''" | "status d = JStr ''error''"
    | "status d \<noteq> JStr ''complete''" "status d \<noteq> JStr ''error''" by blast
  then show ?thesis
  proof cases
    case 1
    then show ?thesis
      by (simp add: poll_response_def Let_def updateProgress_complete closeEventSource_eq
          stopPolling_eq)
  next
    case 2
    then show ?thesis
      by (simp add: poll_response_def Let_def updateProgress_error closeEventSource_eq
          stopPolling_eq)
  next
    case 3
    then show ?thesis by (simp add: poll_response_def Let_def updateProgress_other)
  qed
qed

lemma redelivered_by_poll:
  "handle (PollResponse (Response True (Body d))) (handle (SseMessage (Parsed d)) st) =
     (if (status d = JStr ''complete'' \<or> status d = JStr ''error'') \<and> \<not> storageFaulty st
      then (handle (SseMessage (Parsed d)) st)
             \<lparr>pollsInFlight := pollsInFlight st - 1, pollTimer := None\<rparr>
      else (handle (SseMessage (Parsed d)) st)\<lparr>pollsInFlight := pollsInFlight st - 1\<rparr>)"
proof -
  consider "status d = JStr ''complete''" | "status d = JStr ''error''"
    | "status d \<noteq> JStr ''complete''" "status d \<noteq> JStr ''error''" by blast
  then show ?thesis
  proof cases
    case 1
    then show ?thesis
      by (cases st)
         (simp add: sse_onmessage_applies poll_response_applies updateProgress_complete
            o_def renderStage_idem)
  next
    case 2
    then show ?thesis
      by (cases st)
         (simp add: sse_onmessage_applies poll_response_applies updateProgress_error
            o_def renderStage_idem)
  next
    case 3
    then show ?thesis
      by (cases st)
         (simp add: sse_onmessage_applies poll_response_applies updateProgress_other
            o_def renderStage_idem)
  qed
qed


lemma updateProgress_storageFaulty:
  "storageFaulty (state_of (updateProgress d st)) = storageFaulty st"
proof -
  consider "status d = JStr ''complete''" | "status d = JStr ''error''"
    | "status d \<noteq> JStr ''complete''" "status d \<noteq> JStr ''error''" by blast
  then show ?thesis
    by cases (simp_all add: updateProgress_complete updateProgress_error updateProgress_other)
qed

lemma poll_response_label:
  assumes "status d2 \<noteq> JStr ''complete''"
  shows "progressText (poll_response (Response True (Body d2)) s)
           = toString (js_or (progress d2) (JNum 0)) @ ''%''"
proof (cases "status d2 = JStr ''error''")
  case True
  then show ?thesis by (simp add: poll_response_applies updateProgress_error)
next
  case False
  with assms show ?thesis by (simp add: poll_response_applies updateProgress_other)
qed

lemma poll_response_failure_view:
  assumes "status d2 = JStr ''error''" "\<not> storageFaulty s"
  shows "resultSuccessDisplay (poll_response (Response True (Body d2)) s) = ''none'' \<and>
         resultErrorDisplay (poll_response (Response True (Body d2)) s) = ''block'' \<and>
         errorMessage (poll_response (Response True (Body d2)) s)
           = toString (js_or (error d2) (JStr ''An unknown error occurred.''))"
  using assms by (simp add: poll_response_applies updateProgress_error)

text \<open>
  Claim C2, amended. Every snapshot that a channel delivers is applied, in every state
  and so also after a terminal outcome: the message handler and the poll handler end in
  the state \<^verbatim>\<open>updateProgress\<close> leaves (the poll handler then closes both channels on a
  terminal snapshot), and \<^verbatim>\<open>updateProgress\<close> writes the bar, the label, the status
  message, the stages and, for a terminal snapshot on a storage layer that does not
  fault, the result view from the snapshot alone. So a snapshot that the poll channel
  delivers after the push channel delivered another one overwrites the label, and an
  \<^verbatim>\<open>error\<close> snapshot puts the failure view in place of whatever was shown. A snapshot
  applied a second time gives exactly the result of the first application, and the same
  snapshot delivered again by the poll channel after the push channel leaves every field
  of the page as it was: only the count of requests in flight changes and, for a
  terminal snapshot, the poll timer is cancelled.
\<close>

theorem delivered_snapshot_is_applied:
  "sse_onmessage (Parsed d) st = state_of (updateProgress d (st\<lparr>retryCount := 0\<rparr>)) \<and>
   poll_response (Response True (Body d)) st =
     (if (status d = JStr ''complete'' \<or> status d = JStr ''error'') \<and> \<not> storageFaulty st
      then (state_of (updateProgress d (st\<lparr>pollsInFlight := pollsInFlight st - 1\<rparr>)))
             \<lparr>eventSource := None, pollTimer := None\<rparr>
      else state_of (updateProgress d (st\<lparr>pollsInFlight := pollsInFlight st - 1\<rparr>))) \<and>
   (status d \<noteq> JStr ''complete'' \<and> status d \<noteq> JStr ''error'' \<longrightarrow>
      updateProgress d st =
        Returns (st\<lparr>progressFillWidth := toString (js_or (progress d) (JNum 0)) @ ''%'',
                    progressText := toString (js_or (progress d) (JNum 0)) @ ''%'',
                    statusMessage := (if truthy (message d) then toString (message d)
                                      else statusMessage st),
                    stages := map (renderStage (indexOf STAGE_ORDER (stage d)) (status d))
                                (stages st)\<rparr>)) \<and>
   (status d = JStr ''error'' \<and> \<not> storageFaulty st \<longrightarrow>
      updateProgress d st =
        Returns
          (st\<lparr>progressFillWidth := toString (js_or (progress d) (JNum 0)) @ ''%'',
              progressText := toString (js_or (progress d) (JNum 0)) @ ''%'',
              statusMessage := (if truthy (message d) then toString (message d)
                                else statusMessage st),
              stages := map (renderStage (indexOf STAGE_ORDER (stage d)) (status d))
                          (stages st),
              yt_dub_job_id := None, eventSource := None,
              resultSectionDisplay := ''block'', resultSuccessDisplay := ''none'',
              resultErrorDisplay := ''block'',
              errorMessage := toString (js_or (error d) (JStr ''An unknown error occurred.'')),
              submitDisabled := False, btnTextDisplay := ''inline'',
              btnLoadingDisplay := ''none''\<rparr>)) \<and>
   (status d = JStr ''complete'' \<and> \<not> storageFaulty st \<longrightarrow>
      updateProgress d st =
        Returns
          (st\<lparr>statusMessage := (if truthy (message d) then toString (message d)
                                else statusMessage st),
              eventSource := None, pollTimer := None, yt_dub_job_id := None,
              stages := map (\<lambda>el. el\<lparr>classes := insert ''done''
                                                     (classes el - {''active'', ''done''}),
                                        stageStatus := complete_text\<rparr>) (stages st),
              progressFillWidth := ''100%'', progressText := ''100%'',
              resultSectionDisplay := ''block'', resultSuccessDisplay := ''block'',
              resultErrorDisplay := ''none'',
              resultMessage :=
                toString (js_or (message d)
                                (JStr ''Your video has been dubbed successfully!'')),
              downloadHref := ''/api/download/'' @ toString (currentJobId st),
              submitDisabled := False, btnTextDisplay := ''inline'',
              btnLoadingDisplay := ''none''\<rparr>)) \<and>
   (\<forall>d2. status d2 \<noteq> JStr ''complete'' \<longrightarrow>
      progressText (handle (PollResponse (Response True (Body d2)))
                      (handle (SseMessage (Parsed d)) st))
        = toString (js_or (progress d2) (JNum 0)) @ ''%'') \<and>
   (\<forall>d2. status d2 = JStr ''error'' \<and> \<not> storageFaulty st \<longrightarrow>
      resultSuccessDisplay (handle (PollResponse (Response True (Body d2)))
                              (handle (SseMessage (Parsed d)) st)) = ''none'' \<and>
      resultErrorDisplay (handle (PollResponse (Response True (Body d2)))
                            (handle (SseMessage (Parsed d)) st)) = ''block'' \<and>
      errorMessage (handle (PollResponse (Response True (Body d2)))
                      (handle (SseMessage (Parsed d)) st))
        = toString (js_or (error d2) (JStr ''An unknown error occurred.''))) \<and>
   updateProgress d (state_of (updateProgress d st)) = updateProgress d st \<and>
   handle (PollResponse (Response True (Body d))) (handle (SseMessage (Parsed d)) st) =
     (if (status d = JStr ''complete'' \<or> status d = JStr ''error'') \<and> \<not> storageFaulty st
      then (handle (SseMessage (Parsed d)) st)
             \<lparr>pollsInFlight := pollsInFlight st - 1, pollTimer := None\<rparr>
      else (handle (SseMessage (Parsed d)) st)\<lparr>pollsInFlight := pollsInFlight st - 1\<rparr>)"
proof -
  have nf: "storageFaulty (handle (SseMessage (Parsed d)) st) = storageFaulty st"
    by (simp add: sse_onmessage_applies updateProgress_storageFaulty)
  have ow1: "progressText (handle (PollResponse (Response True (Body d2)))
                      (handle (SseMessage (Parsed d)) st))
        = toString (js_or (progress d2) (JNum 0)) @ ''%''"
    if "status d2 \<noteq> JStr ''complete''" for d2
    using poll_response_label[OF that] by simp
  have ow2: "resultSuccessDisplay (handle (PollResponse (Response True (Body d2)))
                              (handle (SseMessage (Parsed d)) st)) = ''none'' \<and>
      resultErrorDisplay (handle (PollResponse (Response True (Body d2)))
                            (handle (SseMessage (Parsed d)) st)) = ''block'' \<and>
      errorMessage (handle (PollResponse (Response True (Body d2)))
                      (handle (SseMessage (Parsed d)) st))
        = toString (js_or (error d2) (JStr ''An unknown error occurred.''))"
    if "status d2 = JStr ''error''" "\<not> storageFaulty st" for d2
    using poll_response_failure_view[OF that(1), of "handle (SseMessage (Parsed d)) st"]
      that(2) nf by simp
  have idem: "updateProgress d (state_of (updateProgress d st)) = updateProgress d st"
    using updateProgress_idem_other updateProgress_idem_error updateProgress_idem_complete
    by blast
  have a: "status d \<noteq> JStr ''complete'' \<and> status d \<noteq> JStr ''error'' \<longrightarrow>
      updateProgress d st =
        Returns (st\<lparr>progressFillWidth := toString (js_or (progress d) (JNum 0)) @ ''%'',
                    progressText := toString (js_or (progress d) (JNum 0)) @ ''%'',
                    statusMessage := (if truthy (message d) then toString (message d)
                                      else statusMessage st),
                    stages := map (renderStage (indexOf STAGE_ORDER (stage d)) (status d))
                                (stages st)\<rparr>)"
    using updateProgress_other[of d st] by blast
  have b: "status d = JStr ''error'' \<and> \<not> storageFaulty st \<longrightarrow>
      updateProgress d st =
        Returns
          (st\<lparr>progressFillWidth := toString (js_or (progress d) (JNum 0)) @ ''%'',
              progressText := toString (js_or (progress d) (JNum 0)) @ ''%'',
              statusMessage := (if truthy (message d) then toString (message d)
                                else statusMessage st),
              stages := map (renderStage (indexOf STAGE_ORDER (stage d)) (status d))
                          (stages st),
              yt_dub_job_id := None, eventSource := None,
              resultSectionDisplay := ''block'', resultSuccessDisplay := ''none'',
              resultErrorDisplay := ''block'',
              errorMessage := toString (js_or (error d) (JStr ''An unknown error occurred.'')),
              submitDisabled := False, btnTextDisplay := ''inline'',
              btnLoadingDisplay := ''none''\<rparr>)"
    using updateProgress_error[of d st] by simp
  have c: "status d = JStr ''complete'' \<and> \<not> storageFaulty st \<longrightarrow>
      updateProgress d st =
        Returns
          (st\<lparr>statusMessage := (if truthy (message d) then toString (message d)
                                else statusMessage st),
              eventSource := None, pollTimer := None, yt_dub_job_id := None,
              stages := map (\<lambda>el. el\<lparr>classes := insert ''done''
                                                     (classes el - {''active'', ''done''}),
                                        stageStatus := complete_text\<rparr>) (stages st),
              progressFillWidth := ''100%'', progressText := ''100%'',
              resultSectionDisplay := ''block'', resultSuccessDisplay := ''block'',
              resultErrorDisplay := ''none'',
              resultMessage :=
                toString (js_or (message d)
                                (JStr ''Your video has been dubbed successfully!'')),
              downloadHref := ''/api/download/'' @ toString (currentJobId st),
              submitDisabled := False, btnTextDisplay := ''inline'',
              btnLoadingDisplay := ''none''\<rparr>)"
    using updateProgress_complete[of d st] by simp
  from sse_onmessage_applies[of d st] poll_response_applies[of d st] a b c ow1 ow2 idem
    redelivered_by_poll[of d st]
  show ?thesis by (intro conjI allI impI) blast+
qed

theorem delivered_snapshot_is_applied_witness:
  "\<not> storageFaulty session_abc \<and> status snap_complete = JStr ''complete'' \<and>
   status snap_running \<noteq> JStr ''complete'' \<and> status snap_running \<noteq> JStr ''error'' \<and>
   status snap_error = JStr ''error'' \<and>
   progressText (state_of (updateProgress snap_running session_abc)) = ''25%'' \<and>
   resultSuccessDisplay (state_of (updateProgress snap_complete session_abc)) = ''block'' \<and>
   resultErrorDisplay (state_of (updateProgress snap_error session_abc)) = ''block'' \<and>
   progressText (handle (PollResponse (Response True (Body snap_running)))
                   (handle (SseMessage (Parsed snap_complete)) session_abc)) = ''25%'' \<and>
   resultErrorDisplay (handle (PollResponse (Response True (Body snap_error)))
                         (handle (SseMessage (Parsed snap_complete)) session_abc)) = ''block'' \<and>
   handle (PollResponse (Response True (Body snap_complete)))
     (handle (SseMessage (Parsed snap_complete)) session_abc)
     = (handle (SseMessage (Parsed snap_complete)) session_abc)
         \<lparr>pollsInFlight := 0, pollTimer := None\<rparr>"
proof -
  have nf: "\<not> storageFaulty session_abc" and pf: "pollsInFlight session_abc = 0"
    by (simp_all add: session_abc_eq page0_def)
  have c: "status snap_complete = JStr ''complete''" by (simp add: snap_complete_def)
  have r: "status snap_running \<noteq> JStr ''complete''" "status snap_running \<noteq> JStr ''error''"
    "progress snap_running = JNum 25"
    by (simp_all add: snap_running_def)
  have e: "status snap_error = JStr ''error''" by (simp add: snap_error_def)
  note tc = delivered_snapshot_is_applied[of snap_complete session_abc]
  note tr = delivered_snapshot_is_applied[of snap_running session_abc]
  note te = delivered_snapshot_is_applied[of snap_error session_abc]
  from tr r have 1: "progressText (state_of (updateProgress snap_running session_abc)) = ''25%''"
    by (simp add: js_or_def showInt_25)
  from tc c nf
  have 2: "resultSuccessDisplay (state_of (updateProgress snap_complete session_abc)) = ''block''"
    by simp
  from te e nf
  have 3: "resultErrorDisplay (state_of (updateProgress snap_error session_abc)) = ''block''"
    by simp
  from tc have "\<forall>d2. status d2 \<noteq> JStr ''complete'' \<longrightarrow>
      progressText (handle (PollResponse (Response True (Body d2)))
                      (handle (SseMessage (Parsed snap_complete)) session_abc))
        = toString (js_or (progress d2) (JNum 0)) @ ''%''"
    by blast
  with r have 4: "progressText (handle (PollResponse (Response True (Body snap_running)))
                   (handle (SseMessage (Parsed snap_complete)) session_abc)) = ''25%''"
    by (simp add: js_or_def showInt_25)
  from tc have "\<forall>d2. status d2 = JStr ''error'' \<and> \<not> storageFaulty session_abc \<longrightarrow>
      resultSuccessDisplay (handle (PollResponse (Response True (Body d2)))
                              (handle (SseMessage (Parsed snap_complete)) session_abc)) = ''none'' \<and>
      resultErrorDisplay (handle (PollResponse (Response True (Body d2)))
                            (handle (SseMessage (Parsed snap_complete)) session_abc)) = ''block'' \<and>
      errorMessage (handle (PollResponse (Response True (Body d2)))
                      (handle (SseMessage (Parsed snap_complete)) session_abc))
        = toString (js_or (error d2) (JStr ''An unknown error occurred.''))"
    by blast
  with e nf have 5: "resultErrorDisplay (handle (PollResponse (Response True (Body snap_error)))
                         (handle (SseMessage (Parsed snap_complete)) session_abc)) = ''block''"
    by blast
  from tc have "handle (PollResponse (Response True (Body snap_complete)))
       (handle (SseMessage (Parsed snap_complete)) session_abc) =
     (if (status snap_complete = JStr ''complete'' \<or> status snap_complete = JStr ''error'')
         \<and> \<not> storageFaulty session_abc
      then (handle (SseMessage (Parsed snap_complete)) session_abc)
             \<lparr>pollsInFlight := pollsInFlight session_abc - 1, pollTimer := None\<rparr>
      else (handle (SseMessage (Parsed snap_complete)) session_abc)
             \<lparr>pollsInFlight := pollsInFlight session_abc - 1\<rparr>)"
    by blast
  with c nf pf have 6: "handle (PollResponse (Response True (Body snap_complete)))
     (handle (SseMessage (Parsed snap_complete)) session_abc)
     = (handle (SseMessage (Parsed snap_complete)) session_abc)
         \<lparr>pollsInFlight := 0, pollTimer := None\<rparr>"
    by simp
  from nf c r(1,2) e 1 2 3 4 5 6 show ?thesis by blast
qed

section \<open>Reconnection of the push channel\<close>

lemma finish_push_fields:
  "reconnects (state_of (finishSuccess d st)) = reconnects st"
  "reconnects (state_of (finishError d st)) = reconnects st"
  "eventSource st = None \<Longrightarrow> eventSource (state_of (finishSuccess d st)) = None"
  "eventSource st = None \<Longrightarrow> eventSource (state_of (finishError d st)) = None"
  by (simp_all add: finishSuccess_def finishError_def removeItem_def closeEventSource_eq
      stopPolling_eq resetSubmitBtn_def)

lemma updateProgress_push_fields:
  "reconnects (state_of (updateProgress d st)) = reconnects st"
  "eventSource st = None \<Longrightarrow> eventSource (state_of (updateProgress d st)) = None"
  by (simp_all add: updateProgress_def Let_def finish_push_fields)

lemma poll_response_push_fields:
  "reconnects (poll_response r st) = reconnects st"
  "eventSource st = None \<Longrightarrow> eventSource (poll_response r st) = None"
proof -
  have a: "reconnects (state_of (andThen (updateProgress d s) f)) = reconnects s"
    if "\<And>s'. reconnects (state_of (f s')) = reconnects s'" for d s f
    using that updateProgress_push_fields(1)[of d s]
    by (cases "updateProgress d s") simp_all
  have b: "eventSource (state_of (andThen (updateProgress d s) f)) = None"
    if "\<And>s'. eventSource s' = None \<Longrightarrow> eventSource (state_of (f s')) = None"
      and "eventSource s = None" for d s f
    using that updateProgress_push_fields(2)[of s d]
    by (cases "updateProgress d s") simp_all
  show "reconnects (poll_response r st) = reconnects st"
    by (simp add: poll_response_def Let_def a closeEventSource_eq stopPolling_eq
        split: response.splits body.splits)
  show "eventSource (poll_response r st) = None" if "eventSource st = None"
    using that
    by (simp add: poll_response_def Let_def b closeEventSource_eq stopPolling_eq
        split: response.splits body.splits)
qed

lemma push_stopped_step:
  assumes "eventSource st = None" "reconnects st = []" "enabled e st"
  shows "eventSource (handle e st) = None \<and> reconnects (handle e st) = []"
  using assms by (cases e) (simp_all add: poll_tick_def poll_response_push_fields)

lemma push_stopped_run:
  "eventSource st = None \<Longrightarrow> reconnects st = [] \<Longrightarrow> run evs st = Some st' \<Longrightarrow>
   eventSource st' = None \<and> reconnects st' = []"
proof (induction evs arbitrary: st)
  case Nil
  then show ?case by simp
next
  case (Cons e evs)
  from Cons.prems(3) have en: "enabled e st" and r: "run evs (handle e st) = Some st'"
    by (simp_all split: if_splits)
  from push_stopped_step[OF Cons.prems(1,2) en] Cons.IH[OF _ _ r] show ?case by blast
qed

lemma sse_onmessage_resets: "retryCount (sse_onmessage ev st) = 0"
proof (cases ev)
  case Malformed
  then show ?thesis by (simp add: sse_onmessage_def)
next
  case (Parsed d)
  have u: "retryCount (state_of (updateProgress d s)) = retryCount s" for s
    by (simp add: updateProgress_def Let_def finishSuccess_def finishError_def removeItem_def
        closeEventSource_eq stopPolling_eq resetSubmitBtn_def)
  have "retryCount (state_of (andThen (updateProgress d s) f)) = retryCount s"
    if "\<And>s'. retryCount (state_of (f s')) = retryCount s'" for s f
    using that u[of s] by (cases "updateProgress d s") simp_all
  then show ?thesis
    by (simp add: Parsed sse_onmessage_def stopPolling_eq split: option.splits)
qed

lemma sse_onerror_retry:
  assumes "eventSource st = Some u" "retryCount st < 5"
  shows "sse_onerror st =
     Returns (st\<lparr>eventSource := None, retryCount := retryCount st + 1,
                 reconnects := reconnects st @ [2000]\<rparr>)"
  using assms by (simp add: sse_onerror_def maxRetries_def Let_def)

lemma five_failures_run:
  assumes "eventSource st = Some u" "retryCount st = 0" "reconnects st = []"
  shows "run five_failures st =
     Some (st\<lparr>eventSource := None, retryCount := 5, reconnects := [2000]\<rparr>)"
  using assms
  by (simp add: five_failures_def sse_onerror_def maxRetries_def Let_def connect_def)

lemma six_failures_run:
  assumes "eventSource st = Some u" "retryCount st = 0" "reconnects st = []"
  shows "run (five_failures @ [ReconnectFire, SseError]) st =
     Some (st\<lparr>eventSource := None, retryCount := 6, reconnects := []\<rparr>)"
  using assms
  by (simp add: five_failures_def sse_onerror_def maxRetries_def Let_def connect_def)

text \<open>
  Claim C3, as stated, fails: the test is \<^verbatim>\<open>retryCount <= maxRetries\<close> after the increment,
  so the fifth failure in a row still schedules a reconnection, and the timer opens a
  sixth subscription.
\<close>

theorem five_failures_reconnect_pending:
  "map_option reconnects (run five_failures session_abc) = Some [2000] \<and>
   map_option eventSource (run (five_failures @ [ReconnectFire]) session_abc)
     = Some (Some ''/api/status/abc123'')"
  by (simp add: five_failures_def session_abc_eq page0_def sse_onerror_def maxRetries_def
      Let_def connect_def)

text \<open>
  Claim C3, amended. On an open subscription, a transport error that follows fewer than
  five failures in a row closes the subscription, counts the failure and schedules a
  reconnection after 2000 milliseconds; any message sets the count to zero. From a count
  of zero with no timer pending, five failures in a row leave a reconnection pending; the
  sixth leaves none, and from then on the subscription stays closed and no reconnection
  is pending, whatever events follow.
\<close>

theorem push_reconnection_bound:
  assumes "eventSource st = Some u"
  shows "(retryCount st < 5 \<longrightarrow>
            sse_onerror st =
              Returns (st\<lparr>eventSource := None, retryCount := retryCount st + 1,
                          reconnects := reconnects st @ [2000]\<rparr>)) \<and>
         retryCount (sse_onmessage ev st) = 0 \<and>
         (retryCount st = 0 \<and> reconnects st = [] \<longrightarrow>
            run five_failures st =
              Some (st\<lparr>eventSource := None, retryCount := 5, reconnects := [2000]\<rparr>) \<and>
            run (five_failures @ [ReconnectFire, SseError]) st =
              Some (st\<lparr>eventSource := None, retryCount := 6, reconnects := []\<rparr>) \<and>
            (\<forall>evs st'.
               run evs (st\<lparr>eventSource := None, retryCount := 6, reconnects := []\<rparr>) = Some st'
               \<longrightarrow> eventSource st' = None \<and> reconnects st' = []))"
proof -
  have "eventSource st' = None \<and> reconnects st' = []"
    if "run evs (st\<lparr>eventSource := None, retryCount := 6, reconnects := []\<rparr>) = Some st'"
    for evs st'
    using push_stopped_run[OF _ _ that] by simp
  with assms show ?thesis
    by (simp add: sse_onerror_retry sse_onmessage_resets five_failures_run six_failures_run)
qed

theorem push_reconnection_bound_witness:
  "eventSource session_abc = Some ''/api/status/abc123'' \<and> retryCount session_abc = 0 \<and>
   reconnects session_abc = [] \<and>
   reconnects (state_of (sse_onerror session_abc)) = [2000] \<and>
   map_option reconnects (run five_failures session_abc) = Some [2000] \<and>
   map_option reconnects (run (five_failures @ [ReconnectFire, SseError]) session_abc) = Some [] \<and>
   map_option eventSource (run (five_failures @ [ReconnectFire, SseError]) session_abc)
     = Some None \<and>
   run ((five_failures @ [ReconnectFire, SseError]) @ [ReconnectFire]) session_abc = None \<and>
   retryCount (sse_onmessage (Parsed snap_running) session_abc) = 0"
proof -
  have h: "eventSource session_abc = Some ''/api/status/abc123''"
    and z: "retryCount session_abc = 0" "reconnects session_abc = []"
    by (simp_all add: session_abc_eq page0_def)
  note t = push_reconnection_bound[OF h, of "Parsed snap_running"]
  from t z have r5: "run five_failures session_abc =
      Some (session_abc\<lparr>eventSource := None, retryCount := 5, reconnects := [2000]\<rparr>)"
    and r6: "run (five_failures @ [ReconnectFire, SseError]) session_abc =
      Some (session_abc\<lparr>eventSource := None, retryCount := 6, reconnects := []\<rparr>)"
    and m: "retryCount (sse_onmessage (Parsed snap_running) session_abc) = 0"
    and e1: "sse_onerror session_abc =
      Returns (session_abc\<lparr>eventSource := None, retryCount := retryCount session_abc + 1,
                          reconnects := reconnects session_abc @ [2000]\<rparr>)"
    by simp_all
  have stop: "run ((five_failures @ [ReconnectFire, SseError]) @ [ReconnectFire]) session_abc = None"
    by (simp only: run_append[of "five_failures @ [ReconnectFire, SseError]"] r6) simp
  from h z r5 r6 m e1 stop show ?thesis by simp
qed

section \<open>Resume\<close>

text \<open>
  Claim C8, as stated, fails: both the \<^verbatim>\<open>catch\<close> of a rejected query and the branch of a
  response that is not \<^verbatim>\<open>ok\<close> remove the stored id.
\<close>

theorem transport_error_clears_store:
  "yt_dub_job_id
     (state_of (resumeActiveJob NetworkError (page0\<lparr>yt_dub_job_id := Some ''abc123''\<rparr>)))
     = None \<and>
   yt_dub_job_id
     (state_of (resumeActiveJob (Response False BadBody)
        (page0\<lparr>yt_dub_job_id := Some ''abc123''\<rparr>)))
     = None"
  by (simp add: resumeActiveJob_def resume_try_def getItem_def removeItem_def page0_def)

text \<open>
  Claim C8, amended. On a storage layer that does not fault, with a non-empty job id
  stored, a state query that fails by a network failure or by a response that is not
  \<^verbatim>\<open>ok\<close> makes \<^verbatim>\<open>resumeActiveJob\<close> remove the stored id and change nothing else.
\<close>

theorem failed_query_clears_store:
  assumes "\<not> storageFaulty st" and "yt_dub_job_id st = Some jid" and "jid \<noteq> []"
    and "r = NetworkError \<or> r = Response False b"
  shows "resumeActiveJob r st = Returns (st\<lparr>yt_dub_job_id := None\<rparr>)"
  using assms by (auto simp: resumeActiveJob_def resume_try_def getItem_def removeItem_def)

theorem failed_query_clears_store_witness:
  "\<not> storageFaulty (page0\<lparr>yt_dub_job_id := Some ''abc123''\<rparr>) \<and>
   yt_dub_job_id (page0\<lparr>yt_dub_job_id := Some ''abc123''\<rparr>) = Some ''abc123'' \<and>
   ''abc123'' \<noteq> [] \<and>
   resumeActiveJob NetworkError (page0\<lparr>yt_dub_job_id := Some ''abc123''\<rparr>) = Returns page0"
proof -
  let ?st = "page0\<lparr>yt_dub_job_id := Some ''abc123''\<rparr>"
  have h: "\<not> storageFaulty ?st" "yt_dub_job_id ?st = Some ''abc123''" "''abc123'' \<noteq> []"
    by (simp_all add: page0_def)
  have e: "?st\<lparr>yt_dub_job_id := None\<rparr> = page0" by (simp add: page0_def)
  from failed_query_clears_store[OF h, of NetworkError] h e show ?thesis by simp
qed

section \<open>Faults of the storage layer\<close>

lemma storageFaulty_kept [simp]:
  "storageFaulty (showProgress j st) = storageFaulty st"
  "storageFaulty (resetSubmitBtn st) = storageFaulty st"
  "storageFaulty (startSSE j st) = storageFaulty st"
  by (simp_all add: showProgress_def resetSubmitBtn_def startSSE_def startPolling_def
      stopPolling_eq connect_def split: option.splits)

lemma finish_returns:
  assumes "\<not> storageFaulty st"
  shows "\<exists>st'. finishSuccess d st = Returns st' \<and> \<not> storageFaulty st' \<and> yt_dub_job_id st' = None"
    and "\<exists>st'. finishError d st = Returns st' \<and> \<not> storageFaulty st' \<and> yt_dub_job_id st' = None"
  using assms by (simp_all add: finishSuccess_ok finishError_ok resetSubmitBtn_def)

lemma updateProgress_returns:
  assumes "\<not> storageFaulty st"
  shows "\<exists>st'. updateProgress d st = Returns st' \<and> \<not> storageFaulty st'"
proof -
  let ?st3 = "(if truthy (message d)
               then st\<lparr>progressFillWidth := toString (js_or (progress d) (JNum 0)) @ ''%'',
                       progressText := toString (js_or (progress d) (JNum 0)) @ ''%'',
                       statusMessage := toString (message d)\<rparr>
               else st\<lparr>progressFillWidth := toString (js_or (progress d) (JNum 0)) @ ''%'',
                       progressText := toString (js_or (progress d) (JNum 0)) @ ''%''\<rparr>)
              \<lparr>stages := map (renderStage (indexOf STAGE_ORDER (stage d)) (status d)) (stages st)\<rparr>"
  have nf: "\<not> storageFaulty ?st3" using assms by simp
  from finish_returns[OF nf, of d] show ?thesis
    using assms by (auto simp: updateProgress_def Let_def)
qed

lemma resume_try_outcome:
  assumes "\<not> storageFaulty st"
  shows "(\<exists>st'. resume_try r j st = Returns st') \<or> (\<exists>e. resume_try r j st = Throws e st)"
proof -
  let ?s = "showProgress (JStr j) (st\<lparr>currentJobId := JStr j\<rparr>)"
  have nf: "\<not> storageFaulty ?s" using assms by simp
  from updateProgress_returns[OF nf] have u: "\<And>d. \<exists>st1. updateProgress d ?s = Returns st1 \<and> \<not> storageFaulty st1"
    by blast
  show ?thesis
  proof (cases r)
    case NetworkError
    then show ?thesis by (simp add: resume_try_def)
  next
    case (Response ok b)
    show ?thesis
    proof (cases b)
      case BadBody
      with Response assms show ?thesis by (simp add: resume_try_def removeItem_def)
    next
      case (Body d)
      from u[of d] obtain st1 where s1: "updateProgress d ?s = Returns st1" "\<not> storageFaulty st1"
        by blast
      from finish_returns[OF s1(2), of d] s1 Response Body assms show ?thesis
        by (auto simp: resume_try_def removeItem_def)
    qed
  qed
qed

lemma resumeActiveJob_returns:
  assumes "\<not> storageFaulty st"
  shows "\<exists>st'. resumeActiveJob r st = Returns st'"
proof (cases "yt_dub_job_id st")
  case None
  with assms show ?thesis by (simp add: resumeActiveJob_def getItem_def)
next
  case (Some j)
  from resume_try_outcome[OF assms, of r j] Some assms show ?thesis
    by (auto simp: resumeActiveJob_def getItem_def removeItem_def)
qed

text \<open>
  Claim C9, as stated, fails: the calls on \<^verbatim>\<open>localStorage\<close> are not guarded. With a
  storage layer that faults, \<^verbatim>\<open>resumeActiveJob\<close> throws at \<^verbatim>\<open>getItem\<close>, which is outside its
  \<^verbatim>\<open>try\<close>, and \<^verbatim>\<open>finishSuccess\<close> throws at \<^verbatim>\<open>removeItem\<close>, before it has written the
  success view.
\<close>

theorem storage_fault_propagates:
  "resumeActiveJob NetworkError (page0\<lparr>storageFaulty := True\<rparr>)
     = Throws StorageError (page0\<lparr>storageFaulty := True\<rparr>) \<and>
   finishSuccess snap_complete (session_abc\<lparr>storageFaulty := True\<rparr>)
     = Throws StorageError
         (session_abc\<lparr>storageFaulty := True, eventSource := None, pollTimer := None\<rparr>)"
  by (simp add: resumeActiveJob_def getItem_def finishSuccess_def removeItem_def
      closeEventSource_eq stopPolling_eq)

text \<open>
  Claim C9, amended. When the storage layer does not fault, the store calls do not throw:
  \<^verbatim>\<open>resumeActiveJob\<close> returns (at once when no id is stored), \<^verbatim>\<open>finishSuccess\<close> and
  \<^verbatim>\<open>finishError\<close> return with no id stored, and a successful submission stores the job id.
  When it faults, the exception leaves \<^verbatim>\<open>resumeActiveJob\<close>, \<^verbatim>\<open>finishSuccess\<close> and
  \<^verbatim>\<open>finishError\<close>; in \<^verbatim>\<open>handleSubmit\<close> the \<^verbatim>\<open>catch\<close> of the submission takes it, shows the
  network error and starts no channel.
\<close>

theorem store_calls_and_faults:
  "(\<not> storageFaulty st \<longrightarrow>
      (\<exists>st'. resumeActiveJob r st = Returns st') \<and>
      (yt_dub_job_id st = None \<longrightarrow> resumeActiveJob r st = Returns st) \<and>
      (\<exists>st'. finishSuccess d st = Returns st' \<and> yt_dub_job_id st' = None) \<and>
      (\<exists>st'. finishError d st = Returns st' \<and> yt_dub_job_id st' = None) \<and>
      yt_dub_job_id (handleSubmit True (SubmitResponse True (Reply rep)) st)
        = Some (toString (job_id rep))) \<and>
   (storageFaulty st \<longrightarrow>
      resumeActiveJob r st = Throws StorageError st \<and>
      finishSuccess d st = Throws StorageError (st\<lparr>eventSource := None, pollTimer := None\<rparr>) \<and>
      finishError d st = Throws StorageError st \<and>
      handleSubmit True (SubmitResponse True (Reply rep)) st
        = resetSubmitBtn
            (showError ''Network error. Is the server running?''
               (st\<lparr>submitDisabled := True, btnTextDisplay := ''none'',
                   btnLoadingDisplay := ''inline-flex'', currentJobId := job_id rep\<rparr>)))"
proof -
  have a: "yt_dub_job_id (handleSubmit True (SubmitResponse True (Reply rep)) st)
        = Some (toString (job_id rep))" if "\<not> storageFaulty st"
    using that
    by (simp add: handleSubmit_def submit_try_def setItem_def startSSE_def startPolling_def
        stopPolling_eq connect_def showProgress_def split: option.splits)
  have b: "resumeActiveJob r st = Returns st" if "yt_dub_job_id st = None" "\<not> storageFaulty st"
    using that by (simp add: resumeActiveJob_def getItem_def)
  have c: "handleSubmit True (SubmitResponse True (Reply rep)) st
        = resetSubmitBtn
            (showError ''Network error. Is the server running?''
               (st\<lparr>submitDisabled := True, btnTextDisplay := ''none'',
                   btnLoadingDisplay := ''inline-flex'', currentJobId := job_id rep\<rparr>))"
    if "storageFaulty st"
    using that by (simp add: handleSubmit_def submit_try_def setItem_def)
  have d: "resumeActiveJob r st = Throws StorageError st"
    "finishSuccess d st = Throws StorageError (st\<lparr>eventSource := None, pollTimer := None\<rparr>)"
    "finishError d st = Throws StorageError st" if "storageFaulty st"
    using that
    by (simp_all add: resumeActiveJob_def getItem_def finishSuccess_def finishError_def
        removeItem_def closeEventSource_eq stopPolling_eq)
  from a b c d resumeActiveJob_returns[of st r] finish_returns[of st d] show ?thesis by blast
qed

theorem store_calls_and_faults_witness:
  "\<not> storageFaulty page0 \<and> storageFaulty (page0\<lparr>storageFaulty := True\<rparr>) \<and>
   yt_dub_job_id (handleSubmit True
      (SubmitResponse True (Reply \<lparr>reply_error = JUndefined, job_id = JStr ''abc123''\<rparr>)) page0)
     = Some ''abc123'' \<and>
   resumeActiveJob NetworkError page0 = Returns page0 \<and>
   finishError snap_error (page0\<lparr>storageFaulty := True\<rparr>)
     = Throws StorageError (page0\<lparr>storageFaulty := True\<rparr>)"
proof -
  have h: "\<not> storageFaulty page0" "yt_dub_job_id page0 = None"
    and f: "storageFaulty (page0\<lparr>storageFaulty := True\<rparr>)"
    by (simp_all add: page0_def)
  from store_calls_and_faults[of page0 NetworkError snap_error
      "\<lparr>reply_error = JUndefined, job_id = JStr ''abc123''\<rparr>"] h
  have 1: "yt_dub_job_id (handleSubmit True
      (SubmitResponse True (Reply \<lparr>reply_error = JUndefined, job_id = JStr ''abc123''\<rparr>)) page0)
     = Some ''abc123''" and 2: "resumeActiveJob NetworkError page0 = Returns page0"
    by simp_all
  from store_calls_and_faults[of "page0\<lparr>storageFaulty := True\<rparr>" NetworkError snap_error
      "\<lparr>reply_error = JUndefined, job_id = JStr ''abc123''\<rparr>"] f
  have 3: "finishError snap_error (page0\<lparr>storageFaulty := True\<rparr>)
     = Throws StorageError (page0\<lparr>storageFaulty := True\<rparr>)"
    by blast
  from h f 1 2 3 show ?thesis by simp
qed

end
